theory Spec2Isabelle
  imports Complex_Main "HOL-Library.AList"
begin

section \<open>Token trade analysis: the manipulation-detection core of integrated_analysis.js\<close>

text \<open>
  The script reads a CSV trade log, normalises the rows, and derives wallet profiles,
  time buckets, price-change events and several pattern detectors.  This theory embeds
  the analysis part (lines 108 to 701 of the script) as HOL functions and proves
  properties of them.

  Modelling conventions.
  \<^item> A JavaScript number is an IEEE double.  Finite numbers are idealised as \<open>real\<close>
    (no rounding); the non-finite results of a division are kept apart in the type
    \<open>jsnum\<close>.  Signed zeros are not distinguished.
  \<^item> A cell of a numeric column, parsed with dynamic typing, is a number, or \<open>null\<close>
    when it is empty.  A numeric field of a raw row is therefore a \<open>real option\<close>,
    \<open>None\<close> being \<open>null\<close>.  In a derived numeric field \<open>None\<close> stands for a value that is not a
    usable number (\<open>null\<close> or \<open>NaN\<close>); both are falsy and compare unequal to every
    number.
  \<^item> The trade timestamp is an integer number of epoch seconds (\<open>int option\<close> in a raw
    row), in the range where \<open>parseInt\<close> is the identity and \<open>Date\<close> values are valid.
  \<^item> The trade type is a string or \<open>null\<close>.  For the type and the numeric fields
    \<open>null\<close> and \<open>undefined\<close> behave alike (falsy, \<open>NaN\<close> under \<open>parseFloat\<close>), so
    \<open>None\<close> stands for both.
  \<^item> The wallet address cell is a string, or one of the falsy values a parsed row can
    hold there: \<open>null\<close> (an empty cell), \<open>undefined\<close> (a line cut short before the
    column), \<open>false\<close> or \<open>0\<close> (a cell that reads so).  A \<open>Set\<close> keeps these
    apart.  A truthy cell is taken to be a string: wallet addresses are not numerals
    and not the word \<open>true\<close>.
  \<^item> A JavaScript object used as a dictionary is an association list in insertion
    order; \<open>object_entries\<close> gives the order in which \<open>Object.entries\<close> lists it.
    Wallet addresses are taken not to be canonical array-index strings, so that wallet
    maps are listed in insertion order.  A lookup \<open>obj[key]\<close> on such an object also
    finds the members inherited from \<open>Object.prototype\<close>; they are listed in
    \<open>object_prototype_keys\<close>.
  \<^item> Console output and the formatted date strings are left out; they do not feed
    back into the analysis.  The global price extrema (lines 163 to 185 and 498 to 511),
    the market cycle labels (lines 596 to 648) and the report and chart generation
    (from line 703 on) are not modelled.
\<close>

subsection \<open>Thresholds\<close>

definition WHALE_THRESHOLD :: real where
  "WHALE_THRESHOLD = 10000"

definition MEDIUM_THRESHOLD :: real where
  "MEDIUM_THRESHOLD = 1000"

definition RETAIL_THRESHOLD :: real where
  "RETAIL_THRESHOLD = 100"

subsection \<open>JavaScript values\<close>

datatype js_error = TypeError

datatype jsnum = Num real | PosInfinity | NegInfinity | NaN

text \<open>\<open>a / b\<close> on numbers: division by zero gives an infinity or \<open>NaN\<close>, never an exception.\<close>

definition js_div :: "real \<Rightarrow> real \<Rightarrow> jsnum" where
  "js_div a b =
     (if b \<noteq> 0 then Num (a / b)
      else if a > 0 then PosInfinity
      else if a < 0 then NegInfinity
      else NaN)"

text \<open>\<open>x * 100\<close> for a quotient \<open>x\<close>.\<close>

definition js_times100 :: "jsnum \<Rightarrow> jsnum" where
  "js_times100 x = (case x of Num q \<Rightarrow> Num (q * 100) | other \<Rightarrow> other)"

text \<open>The comparisons \<open>x > c\<close> and \<open>x < c\<close> against a finite constant.\<close>

definition js_gt :: "jsnum \<Rightarrow> real \<Rightarrow> bool" where
  "js_gt x c = (case x of Num q \<Rightarrow> q > c | PosInfinity \<Rightarrow> True | NegInfinity \<Rightarrow> False | NaN \<Rightarrow> False)"

definition js_lt :: "jsnum \<Rightarrow> real \<Rightarrow> bool" where
  "js_lt x c = (case x of Num q \<Rightarrow> q < c | PosInfinity \<Rightarrow> False | NegInfinity \<Rightarrow> True | NaN \<Rightarrow> False)"

text \<open>Truthiness of an optional number, an optional integer and an optional string.\<close>

definition truthy :: "real option \<Rightarrow> bool" where
  "truthy v = (case v of None \<Rightarrow> False | Some x \<Rightarrow> x \<noteq> 0)"

definition truthy_int :: "int option \<Rightarrow> bool" where
  "truthy_int v = (case v of None \<Rightarrow> False | Some x \<Rightarrow> x \<noteq> 0)"

definition truthy_str :: "string option \<Rightarrow> bool" where
  "truthy_str v = (case v of None \<Rightarrow> False | Some s \<Rightarrow> s \<noteq> [])"

text \<open>
  The wallet address cell of a row.  The identity of \<open>Set\<close> elements is equality of
  these values.
\<close>

datatype js_address = AddrNull | AddrUndefined | AddrFalse | AddrZero | Address string

definition truthy_address :: "js_address \<Rightarrow> bool" where
  "truthy_address c = (case c of Address s \<Rightarrow> s \<noteq> [] | _ \<Rightarrow> False)"

text \<open>The property key that a truthy address cell gives.\<close>

definition address_key :: "js_address \<Rightarrow> string" where
  "address_key c = (case c of Address s \<Rightarrow> s | _ \<Rightarrow> [])"

text \<open>
  The members every plain object inherits from \<open>Object.prototype\<close>.  Each of them is
  a function, or for \<open>__proto__\<close> the prototype object itself: truthy, and without
  the fields of a wallet record.
\<close>

definition object_prototype_keys :: "string list" where
  "object_prototype_keys =
     [''constructor'', ''__proto__'', ''hasOwnProperty'', ''isPrototypeOf'',
      ''propertyIsEnumerable'', ''toLocaleString'', ''toString'', ''valueOf'',
      ''__defineGetter__'', ''__defineSetter__'', ''__lookupGetter__'', ''__lookupSetter__'']"

text \<open>\<open>v || 0\<close> on an optional number.\<close>

definition or_zero :: "real option \<Rightarrow> real" where
  "or_zero v = (case v of None \<Rightarrow> 0 | Some x \<Rightarrow> x)"

text \<open>\<open>a || b\<close> on optional numbers.\<close>

definition or_else :: "real option \<Rightarrow> real option \<Rightarrow> real option" where
  "or_else a b = (if truthy a then a else b)"

subsection \<open>Rows and trade records\<close>

record raw_row =
  raw_trade_timestamp :: "int option"
  raw_type :: "string option"
  raw_buy_price :: "real option"
  raw_buy_amount :: "real option"
  raw_sell_price :: "real option"
  raw_sell_amount :: "real option"
  raw_trader_wallet_address :: js_address
  raw_net_sol_balance_change :: "real option"

text \<open>
  A processed row keeps the raw fields it does not overwrite (\<open>...row\<close>): the two
  prices, the wallet address and the balance change.
\<close>

record trade =
  trade_timestamp :: int
  tx_type :: string
  buy_price :: "real option"
  sell_price :: "real option"
  buy_amount :: real
  sell_amount :: real
  price :: "real option"
  transaction_value :: real
  trader_wallet_address :: js_address
  net_sol_balance_change :: "real option"

definition TOKEN_BUY :: string where
  "TOKEN_BUY = ''TOKEN_BUY''"

definition TOKEN_SELL :: string where
  "TOKEN_SELL = ''TOKEN_SELL''"

subsection \<open>Trade record normaliser (lines 109 to 152)\<close>

text \<open>The value computed first: price times amount of the row's own side, else 0.\<close>

definition row_transaction_value :: "raw_row \<Rightarrow> real" where
  "row_transaction_value row =
     (if raw_type row = Some TOKEN_BUY \<and> truthy (raw_buy_price row) \<and> truthy (raw_buy_amount row)
      then the (raw_buy_price row) * the (raw_buy_amount row)
      else if raw_type row = Some TOKEN_SELL \<and> truthy (raw_sell_price row) \<and> truthy (raw_sell_amount row)
      then the (raw_sell_price row) * the (raw_sell_amount row)
      else 0)"

text \<open>
  The callback of \<open>data.map\<close>: \<open>None\<close> is the \<open>null\<close> returned for an invalid row.
  \<open>parseFloat\<close> of a number is the number and of \<open>null\<close> is \<open>NaN\<close>, so the price of the
  record is the raw price of its side as it stands.
\<close>

definition process_row :: "raw_row \<Rightarrow> trade option" where
  "process_row row =
     (if \<not> truthy_int (raw_trade_timestamp row) \<or> \<not> truthy_str (raw_type row)
         \<or> (\<not> truthy (raw_buy_amount row) \<and> \<not> truthy (raw_sell_amount row))
      then None
      else Some \<lparr>
        trade_timestamp = the (raw_trade_timestamp row),
        tx_type = the (raw_type row),
        buy_price = raw_buy_price row,
        sell_price = raw_sell_price row,
        buy_amount = (if raw_type row = Some TOKEN_BUY then or_zero (raw_buy_amount row) else 0),
        sell_amount = (if raw_type row = Some TOKEN_SELL then or_zero (raw_sell_amount row) else 0),
        price = (if raw_type row = Some TOKEN_BUY then raw_buy_price row else raw_sell_price row),
        transaction_value = row_transaction_value row,
        trader_wallet_address = raw_trader_wallet_address row,
        net_sol_balance_change = raw_net_sol_balance_change row \<rparr>)"

definition processedData :: "raw_row list \<Rightarrow> trade list" where
  "processedData data = List.map_filter process_row data"

text \<open>\<open>_.sortBy\<close> is a stable ascending sort, as is the insertion sort \<open>sort_key\<close>.\<close>

definition sortedData :: "raw_row list \<Rightarrow> trade list" where
  "sortedData data = sort_key trade_timestamp (processedData data)"

subsection \<open>Grouping by a computed key\<close>

text \<open>
  \<open>_.groupBy\<close> fills an object: a new key is added after the existing ones, a known key
  has the element appended to its group.  The object is an association list in
  insertion order.
\<close>

fun group_insert :: "int \<Rightarrow> 'a \<Rightarrow> (int \<times> 'a list) list \<Rightarrow> (int \<times> 'a list) list" where
  "group_insert k x [] = [(k, [x])]"
| "group_insert k x ((k', xs) # rest) =
     (if k = k' then (k', xs @ [x]) # rest else (k', xs) # group_insert k x rest)"

definition groupBy :: "('a \<Rightarrow> int) \<Rightarrow> 'a list \<Rightarrow> (int \<times> 'a list) list" where
  "groupBy f xs = foldl (\<lambda>acc x. group_insert (f x) x acc) [] xs"

text \<open>
  \<open>Object.entries\<close> lists the keys that are array indices (0 up to \<open>2^32 - 2\<close>) first,
  in ascending numeric order, and the other keys after them in insertion order.
\<close>

definition is_array_index :: "int \<Rightarrow> bool" where
  "is_array_index k = (0 \<le> k \<and> k < 4294967295)"

definition object_entries :: "(int \<times> 'a) list \<Rightarrow> (int \<times> 'a) list" where
  "object_entries obj =
     sort_key fst (filter (\<lambda>e. is_array_index (fst e)) obj)
     @ filter (\<lambda>e. \<not> is_array_index (fst e)) obj"

subsection \<open>Wallet activity aggregator (lines 192 to 226)\<close>

record wallet_stats =
  buys_count :: nat
  buys_volume :: real
  buys_value :: real
  sells_count :: nat
  sells_volume :: real
  sells_value :: real
  totalTransactions :: nat
  firstSeen :: int
  lastSeen :: int
  wallet_netSOLChange :: real

definition new_wallet :: "trade \<Rightarrow> wallet_stats" where
  "new_wallet row = \<lparr>
     buys_count = 0, buys_volume = 0, buys_value = 0,
     sells_count = 0, sells_volume = 0, sells_value = 0,
     totalTransactions = 0,
     firstSeen = trade_timestamp row, lastSeen = trade_timestamp row,
     wallet_netSOLChange = 0 \<rparr>"

definition update_wallet :: "trade \<Rightarrow> wallet_stats \<Rightarrow> wallet_stats" where
  "update_wallet row wallet =
     (let w1 = wallet\<lparr> firstSeen := min (firstSeen wallet) (trade_timestamp row),
                       lastSeen := max (lastSeen wallet) (trade_timestamp row) \<rparr>;
          w2 = (if tx_type row = TOKEN_BUY
                then w1\<lparr> buys_count := buys_count w1 + 1,
                         buys_volume := buys_volume w1 + buy_amount row,
                         buys_value := buys_value w1 + transaction_value row \<rparr>
                else if tx_type row = TOKEN_SELL
                then w1\<lparr> sells_count := sells_count w1 + 1,
                         sells_volume := sells_volume w1 + sell_amount row,
                         sells_value := sells_value w1 + transaction_value row \<rparr>
                else w1)
      in w2\<lparr> totalTransactions := totalTransactions w2 + 1,
              wallet_netSOLChange := wallet_netSOLChange w2 + or_zero (net_sol_balance_change row) \<rparr>)"

text \<open>
  The body of the \<open>forEach\<close>.  A row with a falsy wallet address is skipped.  The
  test \<open>!walletActivity[address]\<close> creates a record only when the lookup finds
  nothing, neither an own key nor an inherited member.  For an address that names an
  inherited member no record is ever created and \<open>wallet\<close> is that member: writing
  its \<open>firstSeen\<close> and \<open>lastSeen\<close> goes through, and then \<open>wallet.buys.count++\<close>
  (line 215) or \<open>wallet.sells.count++\<close> (line 219) throws, since \<open>wallet.buys\<close> and
  \<open>wallet.sells\<close> are \<open>undefined\<close>.  A row of another type only writes \<open>NaN\<close>
  fields on the member; they are falsy, so no later lookup is changed by them.
\<close>

type_synonym wallet_map = "(string \<times> wallet_stats) list"

definition walletActivity_step :: "wallet_map \<Rightarrow> trade \<Rightarrow> js_error + wallet_map" where
  "walletActivity_step acc row =
     (if \<not> truthy_address (trader_wallet_address row) then Inr acc
      else let a = address_key (trader_wallet_address row)
           in case map_of acc a of
                Some wallet \<Rightarrow> Inr (AList.update a (update_wallet row wallet) acc)
              | None \<Rightarrow>
                  if a \<in> set object_prototype_keys
                  then (if tx_type row = TOKEN_BUY \<or> tx_type row = TOKEN_SELL
                        then Inl TypeError else Inr acc)
                  else Inr (AList.update a (update_wallet row (new_wallet row)) acc))"

text \<open>The loop: an exception ends it, and the script with it.\<close>

fun walletActivity_from :: "wallet_map \<Rightarrow> trade list \<Rightarrow> js_error + wallet_map" where
  "walletActivity_from acc [] = Inr acc"
| "walletActivity_from acc (row # rows) =
     (case walletActivity_step acc row of
        Inl e \<Rightarrow> Inl e
      | Inr acc' \<Rightarrow> walletActivity_from acc' rows)"

definition walletActivity :: "trade list \<Rightarrow> js_error + wallet_map" where
  "walletActivity rows = walletActivity_from [] rows"

subsection \<open>Suspicion scorer (lines 229 to 285)\<close>

record suspect =
  address :: string
  totalValue :: real
  buyToSellRatio :: jsnum
  transactionCount :: nat
  timeActiveHours :: real
  transactionFrequency :: real
  netSOLChange :: real
  suspiciousScore :: nat

definition wallet_buyToSellRatio :: "nat \<Rightarrow> nat \<Rightarrow> jsnum" where
  "wallet_buyToSellRatio buys sells =
     (if buys > 0 \<and> sells > 0 then Num (real buys / real sells)
      else if buys > 0 then PosInfinity else Num 0)"

definition wallet_profile :: "string \<times> wallet_stats \<Rightarrow> suspect" where
  "wallet_profile entry =
     (let activity = snd entry;
          hours = real_of_int (lastSeen activity - firstSeen activity) / 3600
      in \<lparr> address = fst entry,
           totalValue = buys_value activity + sells_value activity,
           buyToSellRatio = wallet_buyToSellRatio (buys_count activity) (sells_count activity),
           transactionCount = totalTransactions activity,
           timeActiveHours = hours,
           transactionFrequency =
             (if hours > 0 then real (totalTransactions activity) / hours
              else real (totalTransactions activity)),
           netSOLChange = wallet_netSOLChange activity,
           suspiciousScore = 0 \<rparr>)"

text \<open>The score computed by the second pass, increment by increment.\<close>

definition wallet_score :: "suspect \<Rightarrow> nat" where
  "wallet_score wallet =
     (let score = 0;
          score = (if totalValue wallet > WHALE_THRESHOLD * 10 then score + 5
                   else if totalValue wallet > WHALE_THRESHOLD then score + 3 else score);
          score = (if js_gt (buyToSellRatio wallet) 10 \<or> js_lt (buyToSellRatio wallet) 0.1
                   then score + 3 else score);
          score = (if transactionFrequency wallet > 10 then score + 3
                   else if transactionFrequency wallet > 5 then score + 2 else score);
          score = (if timeActiveHours wallet < 1 \<and> transactionCount wallet > 20
                   then score + 4 else score);
          score = (if netSOLChange wallet > 10 then score + 3 else score)
      in score)"

definition score_wallet :: "suspect \<Rightarrow> suspect" where
  "score_wallet wallet = wallet\<lparr> suspiciousScore := wallet_score wallet \<rparr>"

text \<open>The scored list, built from the entries of the finished wallet map.\<close>

definition suspectedManipulators :: "wallet_map \<Rightarrow> suspect list" where
  "suspectedManipulators wallets = map score_wallet (map wallet_profile wallets)"

text \<open>
  A comparator sort is stable; descending order is ascending order of the negated score.
  The script sorts the array in place, so \<open>suspectedManipulators\<close> is the list as it
  is built and scored, before the ranking.
\<close>

definition topSuspiciousWallets :: "wallet_map \<Rightarrow> suspect list" where
  "topSuspiciousWallets wallets =
     take 20 (sort_key (\<lambda>w. - int (suspiciousScore w)) (suspectedManipulators wallets))"

subsection \<open>Price movement detector (lines 291 to 359)\<close>

text \<open>\<open>_.meanBy\<close>: the sum over the length, \<open>NaN\<close> for an empty list.\<close>

definition meanBy :: "real list \<Rightarrow> real option" where
  "meanBy xs = (if xs = [] then None else Some (sum_list xs / real (length xs)))"

record price_interval =
  pi_timestamp :: int
  avgBuyPrice :: "real option"
  avgSellPrice :: "real option"
  pi_price :: "real option"
  pi_buyCount :: nat
  pi_sellCount :: nat
  buyVolume :: real
  sellVolume :: real
  buyValue :: real
  sellValue :: real
  pi_totalTransactions :: nat

definition bucket_key :: "int \<Rightarrow> trade \<Rightarrow> int" where
  "bucket_key width row = (trade_timestamp row div width) * width"

definition timeIntervals :: "trade list \<Rightarrow> (int \<times> trade list) list" where
  "timeIntervals rows = groupBy (bucket_key 600) rows"

definition price_of_interval :: "int \<times> trade list \<Rightarrow> price_interval" where
  "price_of_interval entry =
     (let transactions = snd entry;
          buys = filter (\<lambda>tx. tx_type tx = TOKEN_BUY) transactions;
          sells = filter (\<lambda>tx. tx_type tx = TOKEN_SELL) transactions;
          avgBuy = (if length buys > 0
                    then meanBy (map (\<lambda>tx. the (buy_price tx)) (filter (\<lambda>tx. truthy (buy_price tx)) buys))
                    else None);
          avgSell = (if length sells > 0
                     then meanBy (map (\<lambda>tx. the (sell_price tx)) (filter (\<lambda>tx. truthy (sell_price tx)) sells))
                     else None)
      in \<lparr> pi_timestamp = fst entry,
           avgBuyPrice = avgBuy,
           avgSellPrice = avgSell,
           pi_price = or_else avgBuy avgSell,
           pi_buyCount = length buys,
           pi_sellCount = length sells,
           buyVolume = sum_list (map buy_amount buys),
           sellVolume = sum_list (map sell_amount sells),
           buyValue = sum_list (map transaction_value buys),
           sellValue = sum_list (map transaction_value sells),
           pi_totalTransactions = length transactions \<rparr>)"

definition priceByInterval :: "trade list \<Rightarrow> price_interval list" where
  "priceByInterval rows = map price_of_interval (object_entries (timeIntervals rows))"

definition sortedPriceIntervals :: "trade list \<Rightarrow> price_interval list" where
  "sortedPriceIntervals rows =
     sort_key pi_timestamp (filter (\<lambda>interval. truthy (pi_price interval)) (priceByInterval rows))"

record price_change =
  startTimestamp :: int
  endTimestamp :: int
  startPrice :: real
  endPrice :: real
  percentChange :: real
  pc_buyVolume :: real
  pc_sellVolume :: real
  isSignificant :: bool

definition percent_change :: "real \<Rightarrow> real \<Rightarrow> real" where
  "percent_change prev_price curr_price = ((curr_price - prev_price) / prev_price) * 100"

text \<open>One iteration of the loop over adjacent intervals: the events it pushes.\<close>

definition price_change_of :: "price_interval \<Rightarrow> price_interval \<Rightarrow> price_change list" where
  "price_change_of prev cur =
     (if truthy (pi_price prev) \<and> truthy (pi_price cur)
      then (let pc = percent_change (the (pi_price prev)) (the (pi_price cur))
            in if \<bar>pc\<bar> > 5
               then [\<lparr> startTimestamp = pi_timestamp prev,
                        endTimestamp = pi_timestamp cur,
                        startPrice = the (pi_price prev),
                        endPrice = the (pi_price cur),
                        percentChange = pc,
                        pc_buyVolume = buyVolume cur,
                        pc_sellVolume = sellVolume cur,
                        isSignificant = (\<bar>pc\<bar> > 10) \<rparr>]
               else [])
      else [])"

fun priceChanges_of :: "price_interval list \<Rightarrow> price_change list" where
  "priceChanges_of (prev # cur # rest) = price_change_of prev cur @ priceChanges_of (cur # rest)"
| "priceChanges_of _ = []"

definition priceChanges :: "trade list \<Rightarrow> price_change list" where
  "priceChanges rows = priceChanges_of (sortedPriceIntervals rows)"

subsection \<open>Pump-and-dump detector (lines 365 to 401)\<close>

text \<open>The elements of \<open>new Set(xs)\<close> in insertion order: first occurrences are kept.\<close>

definition set_elements :: "'a list \<Rightarrow> 'a list" where
  "set_elements xs = rev (remdups (rev xs))"

record pump_and_dump =
  pump :: price_change
  retailBuysCount :: nat
  retailBuysValue :: real
  whaleSellsCount :: nat
  whaleSellsValue :: real
  suspiciousWallets :: "js_address list"

definition retailBuysDuringPump :: "trade list \<Rightarrow> price_change \<Rightarrow> trade list" where
  "retailBuysDuringPump rows p =
     filter (\<lambda>tx. tx_type tx = TOKEN_BUY
                 \<and> trade_timestamp tx \<ge> startTimestamp p
                 \<and> trade_timestamp tx \<le> endTimestamp p
                 \<and> transaction_value tx > 0
                 \<and> transaction_value tx \<le> RETAIL_THRESHOLD) rows"

definition whaleSellsAfterPump :: "trade list \<Rightarrow> price_change \<Rightarrow> trade list" where
  "whaleSellsAfterPump rows p =
     filter (\<lambda>tx. tx_type tx = TOKEN_SELL
                 \<and> trade_timestamp tx > endTimestamp p
                 \<and> trade_timestamp tx \<le> endTimestamp p + 1800
                 \<and> transaction_value tx \<ge> MEDIUM_THRESHOLD) rows"

definition pump_candidate :: "trade list \<Rightarrow> price_change \<Rightarrow> pump_and_dump option" where
  "pump_candidate rows p =
     (let retail = retailBuysDuringPump rows p;
          whale = whaleSellsAfterPump rows p
      in if length retail > 5 \<and> length whale > 0
         then Some \<lparr> pump = p,
                     retailBuysCount = length retail,
                     retailBuysValue = sum_list (map transaction_value retail),
                     whaleSellsCount = length whale,
                     whaleSellsValue = sum_list (map transaction_value whale),
                     suspiciousWallets = set_elements (map trader_wallet_address whale) \<rparr>
         else None)"

definition pumpAndDumpPatterns_of :: "trade list \<Rightarrow> price_change list \<Rightarrow> pump_and_dump list" where
  "pumpAndDumpPatterns_of rows changes =
     List.map_filter (pump_candidate rows) (filter (\<lambda>change. percentChange change > 10) changes)"

definition pumpAndDumpPatterns :: "trade list \<Rightarrow> pump_and_dump list" where
  "pumpAndDumpPatterns rows = pumpAndDumpPatterns_of rows (priceChanges rows)"

subsection \<open>Suspicious five-minute intervals (lines 407 to 493)\<close>

definition detailedTimeIntervals :: "trade list \<Rightarrow> (int \<times> trade list) list" where
  "detailedTimeIntervals rows = groupBy (bucket_key 300) rows"

text \<open>
  The per-bucket object \<open>walletActions\<close>: buys and sells of each wallet with an
  address.  As in the wallet map, an address that names an inherited member gets no own
  key: the test \<open>!walletActions[address]\<close> finds the member, and the increment writes a
  \<open>NaN\<close> field on it without an exception.  \<open>Object.entries\<close> lists own keys only.
\<close>

definition count_action :: "trade \<Rightarrow> nat \<times> nat \<Rightarrow> nat \<times> nat" where
  "count_action tx actions =
     (if tx_type tx = TOKEN_BUY then (fst actions + 1, snd actions)
      else if tx_type tx = TOKEN_SELL then (fst actions, snd actions + 1)
      else actions)"

definition walletActions_step :: "(string \<times> nat \<times> nat) list \<Rightarrow> trade \<Rightarrow> (string \<times> nat \<times> nat) list" where
  "walletActions_step acc tx =
     (if \<not> truthy_address (trader_wallet_address tx) then acc
      else let a = address_key (trader_wallet_address tx)
           in case map_of acc a of
                Some actions \<Rightarrow> AList.update a (count_action tx actions) acc
              | None \<Rightarrow>
                  if a \<in> set object_prototype_keys then acc
                  else AList.update a (count_action tx (0, 0)) acc)"

definition walletActions :: "trade list \<Rightarrow> (string \<times> nat \<times> nat) list" where
  "walletActions transactions = foldl walletActions_step [] transactions"

definition potentialWashTraders_of :: "trade list \<Rightarrow> string list" where
  "potentialWashTraders_of transactions =
     map fst (filter (\<lambda>e. fst (snd e) > 0 \<and> snd (snd e) > 0) (walletActions transactions))"

definition interval_buyToSellRatio :: "nat \<Rightarrow> nat \<Rightarrow> jsnum" where
  "interval_buyToSellRatio buys sells =
     (if sells > 0 then Num (real buys / real sells)
      else if buys > 0 then PosInfinity else Num 0)"

record activity_interval =
  ai_timestamp :: int
  ai_totalTransactions :: nat
  uniqueWallets :: nat
  transactionsPerWallet :: real
  largeTransactionsCount :: nat
  ai_buyCount :: nat
  ai_sellCount :: nat
  ai_buyToSellRatio :: jsnum
  potentialWashTraders :: "string list"
  washTradingCount :: nat
  whaleTransactionsCount :: nat
  uniqueWhaleWallets :: nat
  ai_suspiciousScore :: nat

definition activity_of_interval :: "int \<times> trade list \<Rightarrow> activity_interval" where
  "activity_of_interval entry =
     (let transactions = snd entry;
          unique = set_elements (map trader_wallet_address transactions);
          large = filter (\<lambda>tx. transaction_value tx \<ge> MEDIUM_THRESHOLD) transactions;
          wash = potentialWashTraders_of transactions;
          buys = filter (\<lambda>tx. tx_type tx = TOKEN_BUY) transactions;
          sells = filter (\<lambda>tx. tx_type tx = TOKEN_SELL) transactions;
          ratio = interval_buyToSellRatio (length buys) (length sells);
          whale = filter (\<lambda>tx. transaction_value tx \<ge> WHALE_THRESHOLD) transactions;
          uniqueWhale = set_elements (map trader_wallet_address whale);
          score = 0;
          score = (if length transactions > 20 \<and> length unique < 5 then score + 3 else score);
          score = (if length wash > 0 then score + length wash * 2 else score);
          score = (if js_gt ratio 10 \<or> js_lt ratio 0.1 then score + 2 else score);
          score = (if length whale > 3 then score + 3 else score)
      in \<lparr> ai_timestamp = fst entry,
           ai_totalTransactions = length transactions,
           uniqueWallets = length unique,
           transactionsPerWallet =
             real (length transactions) / real (if length unique = 0 then 1 else length unique),
           largeTransactionsCount = length large,
           ai_buyCount = length buys,
           ai_sellCount = length sells,
           ai_buyToSellRatio = ratio,
           potentialWashTraders = wash,
           washTradingCount = length wash,
           whaleTransactionsCount = length whale,
           uniqueWhaleWallets = length uniqueWhale,
           ai_suspiciousScore = score \<rparr>)"

definition suspiciousActivityIntervals :: "trade list \<Rightarrow> activity_interval list" where
  "suspiciousActivityIntervals rows =
     sort_key (\<lambda>interval. - int (ai_suspiciousScore interval))
       (filter (\<lambda>interval. ai_suspiciousScore interval > 0)
          (map activity_of_interval (object_entries (detailedTimeIntervals rows))))"

subsection \<open>Coordinated activities (lines 653 to 663)\<close>

record coordinated_activity =
  ca_timestamp :: int
  ca_suspiciousScore :: nat
  whaleCount :: nat
  ca_transactionCount :: nat
  ca_buyToSellRatio :: jsnum

definition is_coordinated :: "activity_interval \<Rightarrow> bool" where
  "is_coordinated interval =
     (ai_suspiciousScore interval \<ge> 5 \<and> whaleTransactionsCount interval \<ge> 2)"

definition coordinated_of :: "activity_interval \<Rightarrow> coordinated_activity" where
  "coordinated_of interval = \<lparr>
     ca_timestamp = ai_timestamp interval,
     ca_suspiciousScore = ai_suspiciousScore interval,
     whaleCount = uniqueWhaleWallets interval,
     ca_transactionCount = ai_totalTransactions interval,
     ca_buyToSellRatio = ai_buyToSellRatio interval \<rparr>"

definition coordinatedActivities :: "trade list \<Rightarrow> coordinated_activity list" where
  "coordinatedActivities rows =
     map coordinated_of (filter is_coordinated (suspiciousActivityIntervals rows))"

subsection \<open>Market impact of the top wallets (lines 514 to 524)\<close>

definition totalTransactionValue :: "trade list \<Rightarrow> real" where
  "totalTransactionValue rows = sum_list (map transaction_value rows)"

definition marketImpact :: "trade list \<Rightarrow> suspect \<Rightarrow> jsnum" where
  "marketImpact rows wallet =
     (let walletTransactions = filter (\<lambda>tx. trader_wallet_address tx = Address (address wallet)) rows;
          walletValue = sum_list (map transaction_value walletTransactions)
      in js_times100 (js_div walletValue (totalTransactionValue rows)))"

definition topWalletsImpact :: "trade list \<Rightarrow> wallet_map \<Rightarrow> (suspect \<times> jsnum) list" where
  "topWalletsImpact rows wallets =
     map (\<lambda>wallet. (wallet, marketImpact rows wallet)) (topSuspiciousWallets wallets)"

subsection \<open>Market periods (lines 530 to 590)\<close>

record period =
  periodNumber :: nat
  startTime :: int
  endTime :: int
  period_transactionCount :: nat
  period_buyCount :: nat
  period_sellCount :: nat
  period_buyToSellRatio :: jsnum
  avgPrice :: "real option"
  priceAtStart :: "real option"
  priceAtEnd :: "real option"
  priceChange :: "real option"
  activeWalletsCount :: nat
  period_whaleTransactionsCount :: nat
  whaleWalletsCount :: nat

definition periodDuration :: "int \<Rightarrow> int \<Rightarrow> int" where
  "periodDuration earliestTimestamp latestTimestamp = (latestTimestamp - earliestTimestamp) div 6"

definition periodTransactions :: "trade list \<Rightarrow> int \<Rightarrow> int \<Rightarrow> trade list" where
  "periodTransactions rows start_time end_time =
     filter (\<lambda>tx. trade_timestamp tx \<ge> start_time \<and> trade_timestamp tx < end_time) rows"

text \<open>The body of the loop for the index \<open>i\<close>.\<close>

definition period_of :: "trade list \<Rightarrow> int \<Rightarrow> int \<Rightarrow> nat \<Rightarrow> period" where
  "period_of rows earliestTimestamp duration i =
     (let start_time = earliestTimestamp + int i * duration;
          end_time = earliestTimestamp + (int i + 1) * duration;
          txs = periodTransactions rows start_time end_time;
          buys = filter (\<lambda>tx. tx_type tx = TOKEN_BUY) txs;
          sells = filter (\<lambda>tx. tx_type tx = TOKEN_SELL) txs;
          at_start = (if length txs > 0 then or_else (buy_price (hd txs)) (sell_price (hd txs)) else None);
          at_end = (if length txs > 0 then or_else (buy_price (last txs)) (sell_price (last txs)) else None);
          whale = filter (\<lambda>tx. transaction_value tx \<ge> WHALE_THRESHOLD) txs
      in \<lparr> periodNumber = i + 1,
           startTime = start_time,
           endTime = end_time,
           period_transactionCount = length txs,
           period_buyCount = length buys,
           period_sellCount = length sells,
           period_buyToSellRatio = interval_buyToSellRatio (length buys) (length sells),
           avgPrice =
             (if length txs > 0
              then meanBy (map (\<lambda>tx. the (or_else (buy_price tx) (sell_price tx)))
                     (filter (\<lambda>tx. truthy (buy_price tx) \<or> truthy (sell_price tx)) txs))
              else None),
           priceAtStart = at_start,
           priceAtEnd = at_end,
           priceChange =
             (if truthy at_start \<and> truthy at_end
              then Some (percent_change (the at_start) (the at_end)) else None),
           activeWalletsCount = length (set_elements (map trader_wallet_address txs)),
           period_whaleTransactionsCount = length whale,
           whaleWalletsCount = length (set_elements (map trader_wallet_address whale)) \<rparr>)"

text \<open>
  Reading \<open>trade_timestamp\<close> of \<open>sortedTransactions[0]\<close> throws a \<open>TypeError\<close> when the
  list is empty, since the element is \<open>undefined\<close>.
\<close>

definition periods :: "trade list \<Rightarrow> js_error + period list" where
  "periods rows =
     (let sortedTransactions = sort_key trade_timestamp rows
      in if sortedTransactions = [] then Inl TypeError
         else let earliestTimestamp = trade_timestamp (hd sortedTransactions);
                  latestTimestamp = trade_timestamp (last sortedTransactions);
                  duration = periodDuration earliestTimestamp latestTimestamp
              in Inr (map (period_of rows earliestTimestamp duration) [0..<6]))"

subsection \<open>Whale entries (lines 668 to 699)\<close>

definition totalTokenVolume :: "trade list \<Rightarrow> real" where
  "totalTokenVolume rows =
     sum_list (map (\<lambda>tx. if tx_type tx = TOKEN_BUY then buy_amount tx
                          else if tx_type tx = TOKEN_SELL then sell_amount tx else 0) rows)"

text \<open>The hourly grouping key, as the script computes it.\<close>

definition hour_key :: "trade \<Rightarrow> int" where
  "hour_key tx = trade_timestamp tx div 3600"

definition timeWindows :: "trade list \<Rightarrow> (int \<times> trade list) list" where
  "timeWindows rows = groupBy hour_key (sort_key trade_timestamp rows)"

record whale_entry =
  we_timestamp :: int
  we_whaleCount :: nat
  totalBuyVolume :: real
  percentOfTotalSupply :: jsnum
  we_transactions :: nat

definition whale_buys :: "trade list \<Rightarrow> trade list" where
  "whale_buys transactions =
     filter (\<lambda>tx. tx_type tx = TOKEN_BUY \<and> transaction_value tx \<ge> WHALE_THRESHOLD) transactions"

definition whale_entry_of :: "trade list \<Rightarrow> int \<times> trade list \<Rightarrow> whale_entry list" where
  "whale_entry_of rows entry =
     (let buyTransactions = whale_buys (snd entry)
      in if length buyTransactions \<ge> 2
         then (let volume = sum_list (map buy_amount buyTransactions)
               in [\<lparr> we_timestamp = fst entry,
                     we_whaleCount = length (set_elements (map trader_wallet_address buyTransactions)),
                     totalBuyVolume = volume,
                     percentOfTotalSupply = js_times100 (js_div volume (totalTokenVolume rows)),
                     we_transactions = length buyTransactions \<rparr>])
         else [])"

definition whaleEntries :: "trade list \<Rightarrow> whale_entry list" where
  "whaleEntries rows = concat (map (whale_entry_of rows) (object_entries (timeWindows rows)))"

subsection \<open>The analysis as a whole\<close>

record analysis_result =
  out_sortedData :: "trade list"
  out_walletActivity :: wallet_map
  out_topSuspiciousWallets :: "suspect list"
  out_priceChanges :: "price_change list"
  out_pumpAndDumpPatterns :: "pump_and_dump list"
  out_suspiciousActivityIntervals :: "activity_interval list"
  out_topWalletsImpact :: "(suspect \<times> jsnum) list"
  out_periods :: "period list"
  out_coordinatedActivities :: "coordinated_activity list"
  out_whaleEntries :: "whale_entry list"

text \<open>
  The statements run in order.  Right after sorting, the script logs the time range and
  reads \<open>sortedData[0].trade_timestamp\<close> (line 157); with no record left this access
  throws, and nothing catches it.  The wallet loop comes next and may throw as well; the
  stages after it run only when it has finished.
\<close>

definition analysis :: "raw_row list \<Rightarrow> js_error + analysis_result" where
  "analysis data =
     (let rows = sortedData data
      in if rows = [] then Inl TypeError
         else (case walletActivity rows of
                 Inl e \<Rightarrow> Inl e
               | Inr wallets \<Rightarrow>
                   (case periods rows of
                      Inl e \<Rightarrow> Inl e
                    | Inr ps \<Rightarrow> Inr \<lparr>
                        out_sortedData = rows,
                        out_walletActivity = wallets,
                        out_topSuspiciousWallets = topSuspiciousWallets wallets,
                        out_priceChanges = priceChanges rows,
                        out_pumpAndDumpPatterns = pumpAndDumpPatterns rows,
                        out_suspiciousActivityIntervals = suspiciousActivityIntervals rows,
                        out_topWalletsImpact = topWalletsImpact rows wallets,
                        out_periods = ps,
                        out_coordinatedActivities = coordinatedActivities rows,
                        out_whaleEntries = whaleEntries rows \<rparr>)))"

subsection \<open>Example inputs\<close>

text \<open>A buy row and a sell row as the parser delivers them, with the other side empty.\<close>

definition buy_row :: "int \<Rightarrow> real \<Rightarrow> real \<Rightarrow> string \<Rightarrow> raw_row" where
  "buy_row ts p a w = \<lparr>
     raw_trade_timestamp = Some ts, raw_type = Some TOKEN_BUY,
     raw_buy_price = Some p, raw_buy_amount = Some a,
     raw_sell_price = None, raw_sell_amount = None,
     raw_trader_wallet_address = Address w, raw_net_sol_balance_change = None \<rparr>"

definition sell_row :: "int \<Rightarrow> real \<Rightarrow> real \<Rightarrow> string \<Rightarrow> raw_row" where
  "sell_row ts p a w = \<lparr>
     raw_trade_timestamp = Some ts, raw_type = Some TOKEN_SELL,
     raw_buy_price = None, raw_buy_amount = None,
     raw_sell_price = Some p, raw_sell_amount = Some a,
     raw_trader_wallet_address = Address w, raw_net_sol_balance_change = None \<rparr>"

text \<open>A row the normaliser drops: it has no timestamp.\<close>

definition untimed_row :: raw_row where
  "untimed_row = (buy_row 0 1 1 ''A'')\<lparr> raw_trade_timestamp := None \<rparr>"

text \<open>
  The wallet of the scoring example: total value 150000, only sells, twelve
  transactions in two hours, a net balance change of 15.
\<close>

definition example_wallet :: suspect where
  "example_wallet = \<lparr>
     address = ''W'', totalValue = 150000, buyToSellRatio = Num 0,
     transactionCount = 12, timeActiveHours = 2, transactionFrequency = 6,
     netSOLChange = 15, suspiciousScore = 0 \<rparr>"

text \<open>Twelve sells of one wallet, spread over 7200 seconds, that give this profile.\<close>

definition seller_rows :: "raw_row list" where
  "seller_rows =
     map (\<lambda>i. (sell_row (1000 + 7200 * int i div 11) 125 100 ''W'')
                  \<lparr> raw_net_sol_balance_change := Some 1.25 \<rparr>) [0..<12]"

text \<open>
  Three wallets: one with twelve buys and no sell, one whose only trade is neither a
  buy nor a sell, one with nine buys and three sells.
\<close>

definition ratio_rows :: "raw_row list" where
  "ratio_rows =
     map (\<lambda>i. buy_row (100 + int i) 1 1 ''P'') [0..<12]
     @ [(buy_row 200 1 1 ''Q'')\<lparr> raw_type := Some ''TRANSFER'' \<rparr>]
     @ map (\<lambda>i. buy_row (300 + int i) 1 1 ''R'') [0..<9]
     @ map (\<lambda>i. sell_row (400 + int i) 1 1 ''R'') [0..<3]"

text \<open>The amount of a record's own side; a record that is neither a buy nor a sell has none.\<close>

definition active_amount :: "trade \<Rightarrow> real" where
  "active_amount t =
     (if tx_type t = TOKEN_BUY then buy_amount t
      else if tx_type t = TOKEN_SELL then sell_amount t else 0)"

text \<open>
  The invariant of the data model, \<open>value == amount * price\<close>, read on a record.  A
  \<open>NaN\<close> price compares unequal to everything, so the equality fails for it.
\<close>

definition value_is_amount_times_price :: "trade \<Rightarrow> bool" where
  "value_is_amount_times_price t =
     (case price t of None \<Rightarrow> False | Some p \<Rightarrow> transaction_value t = active_amount t * p)"

text \<open>A buy of 5 tokens whose price cell is empty.\<close>

definition unpriced_row :: raw_row where
  "unpriced_row = (buy_row 50 0 5 ''A'')\<lparr> raw_buy_price := None \<rparr>"

text \<open>Rows out of order, two of them with the same timestamp, one invalid, one unpriced.\<close>

definition shuffled_rows :: "raw_row list" where
  "shuffled_rows =
     [buy_row 20 2 3 ''A'', sell_row 10 4 5 ''B'', untimed_row, buy_row 10 6 7 ''C'', unpriced_row]"

text \<open>Two whale buys in the hour that starts at 7200 seconds.\<close>

definition whale_rows :: "raw_row list" where
  "whale_rows = [buy_row 7200 100 100 ''A'', buy_row 7300 100 150 ''B'']"

text \<open>One trade per second: seven trades spanning six seconds, and five spanning four.\<close>

definition week_rows :: "raw_row list" where
  "week_rows = map (\<lambda>i. buy_row (1 + int i) 1 1 ''A'') [0..<7]"

definition burst_rows :: "raw_row list" where
  "burst_rows = map (\<lambda>i. buy_row (1 + int i) 1 1 ''A'') [0..<5]"

text \<open>Start, end and number of trades of each period of a result.\<close>

definition period_bounds :: "js_error + period list \<Rightarrow> (int \<times> int \<times> nat) list" where
  "period_bounds r =
     (case r of
        Inl e \<Rightarrow> []
      | Inr ps \<Rightarrow> map (\<lambda>p. (startTime p, endTime p, period_transactionCount p)) ps)"

text \<open>
  The retail buys of an event counted as the specification words it, strictly inside the
  event window.
\<close>

definition strict_retail_buy_count :: "trade list \<Rightarrow> price_change \<Rightarrow> nat" where
  "strict_retail_buy_count rows p =
     length (filter (\<lambda>tx. tx_type tx = TOKEN_BUY
                 \<and> startTimestamp p < trade_timestamp tx
                 \<and> trade_timestamp tx < endTimestamp p
                 \<and> transaction_value tx > 0
                 \<and> transaction_value tx \<le> RETAIL_THRESHOLD) rows)"

text \<open>
  Six retail buys exactly at the start of the event window (second 600, price 1), a
  large buy at price 2 that opens the next bucket, and a sell of value 2000 after it.
\<close>

definition boundary_pump_rows :: "raw_row list" where
  "boundary_pump_rows =
     map (\<lambda>i. buy_row 600 1 10 ''R'') [0..<6]
     @ [buy_row 1200 2 1000 ''B'', sell_row 1300 2 1000 ''S'']"

text \<open>
  The pump example: \<open>n\<close> retail buys of value 10 inside the window, a price rise of 15
  percent into the next bucket, and two sells of value 1000 and 2000 after it.
\<close>

definition pump_rows :: "nat \<Rightarrow> raw_row list" where
  "pump_rows n =
     map (\<lambda>i. buy_row (601 + int i) 1 10 ''R'') [0..<n]
     @ [buy_row 1200 1.15 1000 ''B'', sell_row 1300 1 1000 ''S'', sell_row 1400 1 2000 ''T'']"

text \<open>The buys and the sells of one wallet address within a list of trades.\<close>

definition buys_of :: "string \<Rightarrow> trade list \<Rightarrow> nat" where
  "buys_of a txs =
     length (filter (\<lambda>tx. trader_wallet_address tx = Address a \<and> tx_type tx = TOKEN_BUY) txs)"

definition sells_of :: "string \<Rightarrow> trade list \<Rightarrow> nat" where
  "sells_of a txs =
     length (filter (\<lambda>tx. trader_wallet_address tx = Address a \<and> tx_type tx = TOKEN_SELL) txs)"

text \<open>
  One five-minute bucket with three wallets that each buy and sell; both whale trades
  are made by the same wallet.
\<close>

definition single_whale_rows :: "raw_row list" where
  "single_whale_rows =
     [buy_row 10 100 100 ''A'', sell_row 20 100 100 ''A'',
      buy_row 30 1 1 ''B'', sell_row 40 1 1 ''B'',
      buy_row 50 1 1 ''C'', sell_row 60 1 1 ''C'']"

text \<open>
  Four five-minute buckets: one wash trader; three wash traders with two whale trades
  of different wallets; a lone buy; a buy and a sell of different wallets.
\<close>

definition interval_rows :: "raw_row list" where
  "interval_rows =
     [buy_row 10 1 1 ''D'', sell_row 20 1 1 ''D'',
      buy_row 310 100 100 ''A'', sell_row 320 100 100 ''B'',
      buy_row 330 1 1 ''B'', sell_row 340 1 1 ''A'',
      buy_row 350 1 1 ''C'', sell_row 360 1 1 ''C'',
      buy_row 700 1 1 ''E'', sell_row 910 1 1 ''F'', buy_row 920 1 1 ''G'']"

text \<open>
  One bucket in which wallet A buys and sells and three trades have an empty address
  cell (\<open>null\<close>).
\<close>

definition anonymous_rows :: "raw_row list" where
  "anonymous_rows =
     [buy_row 10 1 1 ''A'',
      (buy_row 20 1 1 '''')\<lparr> raw_trader_wallet_address := AddrNull \<rparr>,
      (sell_row 30 1 1 '''')\<lparr> raw_trader_wallet_address := AddrNull \<rparr>,
      (buy_row 40 1 1 '''')\<lparr> raw_trader_wallet_address := AddrNull \<rparr>,
      sell_row 50 1 1 ''A'']"

text \<open>
  One bucket in which wallet A buys and sells, one trade has an empty address cell
  (\<open>null\<close>) and one comes from a line cut short before the address column
  (\<open>undefined\<close>).
\<close>

definition short_line_rows :: "raw_row list" where
  "short_line_rows =
     [buy_row 10 1 1 ''A'',
      (buy_row 20 1 1 '''')\<lparr> raw_trader_wallet_address := AddrNull \<rparr>,
      (sell_row 30 1 1 '''')\<lparr> raw_trader_wallet_address := AddrUndefined \<rparr>,
      sell_row 40 1 1 ''A'']"

text \<open>One buy per ten-minute bucket, at the prices 10, 10.2, 12 and 6.\<close>

definition price_rows :: "raw_row list" where
  "price_rows =
     [buy_row 600 10 1 ''A'', buy_row 1200 10.2 1 ''A'', buy_row 1800 12 1 ''A'', buy_row 2400 6 1 ''A'']"

text \<open>
  Four ten-minute buckets: buys at 10 and 20 with a sell at 99; sells at 30 and 34; a
  single buy without a price; a buy at 33.
\<close>

definition mixed_price_rows :: "raw_row list" where
  "mixed_price_rows =
     [buy_row 600 10 1 ''A'', buy_row 700 20 1 ''B'', sell_row 800 99 1 ''C'',
      sell_row 1200 30 1 ''A'', sell_row 1300 34 1 ''A'',
      (buy_row 1900 0 1 ''D'')\<lparr> raw_buy_price := None \<rparr>,
      buy_row 2500 33 1 ''A'']"

text \<open>
  A trade that ends the wallet loop: a buy or a sell whose address names a member
  inherited from \<open>Object.prototype\<close>.
\<close>

definition throwing_row :: "trade \<Rightarrow> bool" where
  "throwing_row row \<longleftrightarrow>
     truthy_address (trader_wallet_address row)
     \<and> address_key (trader_wallet_address row) \<in> set object_prototype_keys
     \<and> (tx_type row = TOKEN_BUY \<or> tx_type row = TOKEN_SELL)"

text \<open>A buy of a wallet named like an inherited member, and a transfer of another.\<close>

definition inherited_buy_rows :: "raw_row list" where
  "inherited_buy_rows = [buy_row 10 1 1 ''A'', buy_row 20 1 1 ''constructor'']"

definition inherited_transfer_rows :: "raw_row list" where
  "inherited_transfer_rows =
     [buy_row 10 1 1 ''A'',
      (buy_row 20 1 1 ''toString'')\<lparr> raw_type := Some ''TRANSFER'' \<rparr>,
      sell_row 30 1 1 ''A'']"

text \<open>The wallet maps of the scoring example and of the ratio example.\<close>

definition seller_wallets :: wallet_map where
  "seller_wallets =
     [(''W'', \<lparr> buys_count = 0, buys_volume = 0, buys_value = 0,
               sells_count = 12, sells_volume = 1200, sells_value = 150000,
               totalTransactions = 12, firstSeen = 1000, lastSeen = 8200,
               wallet_netSOLChange = 15 \<rparr>)]"

definition ratio_wallets :: wallet_map where
  "ratio_wallets =
     [(''P'', \<lparr> buys_count = 12, buys_volume = 12, buys_value = 12,
               sells_count = 0, sells_volume = 0, sells_value = 0,
               totalTransactions = 12, firstSeen = 100, lastSeen = 111,
               wallet_netSOLChange = 0 \<rparr>),
      (''Q'', \<lparr> buys_count = 0, buys_volume = 0, buys_value = 0,
               sells_count = 0, sells_volume = 0, sells_value = 0,
               totalTransactions = 1, firstSeen = 200, lastSeen = 200,
               wallet_netSOLChange = 0 \<rparr>),
      (''R'', \<lparr> buys_count = 9, buys_volume = 9, buys_value = 9,
               sells_count = 3, sells_volume = 3, sells_value = 3,
               totalTransactions = 12, firstSeen = 300, lastSeen = 402,
               wallet_netSOLChange = 0 \<rparr>)]"

text \<open>The wallet map of the rows with empty address cells.\<close>

definition anonymous_wallets :: wallet_map where
  "anonymous_wallets =
     [(''A'', \<lparr> buys_count = 1, buys_volume = 1, buys_value = 1,
               sells_count = 1, sells_volume = 1, sells_value = 1,
               totalTransactions = 2, firstSeen = 10, lastSeen = 50,
               wallet_netSOLChange = 0 \<rparr>)]"

section \<open>Properties\<close>

subsection \<open>Grouping\<close>

lemma groupBy_Nil: "groupBy f [] = []"
  by (simp add: groupBy_def)

lemma groupBy_snoc: "groupBy f (xs @ [x]) = group_insert (f x) x (groupBy f xs)"
  by (simp add: groupBy_def)

lemma map_of_group_insert:
  "map_of (group_insert k x al) k' =
     (if k' = k then Some ((case map_of al k of None \<Rightarrow> [] | Some g \<Rightarrow> g) @ [x]) else map_of al k')"
  by (induction k x al rule: group_insert.induct) auto

lemma keys_group_insert:
  "map fst (group_insert k x al) = (if k \<in> set (map fst al) then map fst al else map fst al @ [k])"
  by (induction k x al rule: group_insert.induct) auto

lemma distinct_keys_groupBy: "distinct (map fst (groupBy f xs))"
  by (induction xs rule: rev_induct) (auto simp: groupBy_Nil groupBy_snoc keys_group_insert)

lemma set_keys_groupBy: "set (map fst (groupBy f xs)) = f ` set xs"
  by (induction xs rule: rev_induct) (auto simp: groupBy_Nil groupBy_snoc keys_group_insert)

lemma map_of_groupBy:
  "map_of (groupBy f xs) k = (if k \<in> f ` set xs then Some (filter (\<lambda>x. f x = k) xs) else None)"
proof (induction xs rule: rev_induct)
  case Nil
  then show ?case by (simp add: groupBy_Nil)
next
  case (snoc x xs)
  then show ?case
    by (auto simp: groupBy_snoc map_of_group_insert empty_filter_conv) (metis imageI)
qed

text \<open>A group holds exactly the elements with its key, in their original order.\<close>

lemma groupBy_entry_iff:
  "(k, g) \<in> set (groupBy f xs) \<longleftrightarrow> k \<in> f ` set xs \<and> g = filter (\<lambda>x. f x = k) xs"
proof -
  have "(k, g) \<in> set (groupBy f xs) \<longleftrightarrow> map_of (groupBy f xs) k = Some g"
    using distinct_keys_groupBy [of f xs] by simp
  then show ?thesis
    by (auto simp: map_of_groupBy)
qed

lemma set_object_entries: "set (object_entries obj) = set obj"
  by (auto simp: object_entries_def)

lemma distinct_keys_object_entries:
  "distinct (map fst obj) \<Longrightarrow> distinct (map fst (object_entries obj))"
proof -
  assume d: "distinct (map fst obj)"
  let ?a = "filter (\<lambda>e. is_array_index (fst e)) obj"
  let ?b = "filter (\<lambda>e. \<not> is_array_index (fst e)) obj"
  have "distinct (map fst ?a)" "distinct (map fst ?b)"
    using d by (simp_all add: distinct_map_filter)
  then have "distinct (map fst (sort_key fst ?a))" "distinct (map fst ?b)"
    by (simp_all add: distinct_map)
  moreover have "set (map fst (sort_key fst ?a)) \<inter> set (map fst ?b) = {}"
    by auto
  ultimately show ?thesis
    unfolding object_entries_def map_append distinct_append by blast
qed

subsection \<open>The empty dataset\<close>

text \<open>
  Claim C1.  When normalisation leaves no valid trade record, every downstream stage
  should produce a zero-length output and the analysis should complete.  The script
  does not: with an empty input, and with an input whose only row is dropped by the
  normaliser, the analysis ends in a \<open>TypeError\<close> at the first read of
  \<open>sortedData[0].trade_timestamp\<close> and no downstream output is produced; the period stage
  on its own fails in the same way at \<open>sortedTransactions[0].trade_timestamp\<close>.
\<close>

theorem analysis_empty_dataset_fails:
  "analysis [] = Inl TypeError
   \<and> sortedData [untimed_row] = [] \<and> analysis [untimed_row] = Inl TypeError
   \<and> periods [] = Inl TypeError"
  by code_simp

subsection \<open>The wallet map\<close>

lemma walletActivity_from_snoc:
  "walletActivity_from acc (rows @ [row]) =
     (case walletActivity_from acc rows of Inl e \<Rightarrow> Inl e | Inr a \<Rightarrow> walletActivity_step a row)"
  by (induction rows arbitrary: acc) (auto split: sum.splits)

lemma walletActivity_Nil: "walletActivity [] = Inr []"
  by (simp add: walletActivity_def)

lemma walletActivity_snoc_Inr:
  "walletActivity (rows @ [row]) = Inr w \<longleftrightarrow>
     (\<exists>a. walletActivity rows = Inr a \<and> walletActivity_step a row = Inr w)"
  by (auto simp: walletActivity_def walletActivity_from_snoc split: sum.splits)

lemma walletActivity_step_cases:
  assumes "walletActivity_step acc row = Inr w"
  obtains (skip) "\<not> truthy_address (trader_wallet_address row)" "w = acc"
  | (known) wallet where "truthy_address (trader_wallet_address row)"
      "map_of acc (address_key (trader_wallet_address row)) = Some wallet"
      "w = AList.update (address_key (trader_wallet_address row)) (update_wallet row wallet) acc"
  | (inherited) "truthy_address (trader_wallet_address row)"
      "map_of acc (address_key (trader_wallet_address row)) = None"
      "address_key (trader_wallet_address row) \<in> set object_prototype_keys"
      "tx_type row \<noteq> TOKEN_BUY" "tx_type row \<noteq> TOKEN_SELL" "w = acc"
  | (fresh) "truthy_address (trader_wallet_address row)"
      "map_of acc (address_key (trader_wallet_address row)) = None"
      "address_key (trader_wallet_address row) \<notin> set object_prototype_keys"
      "w = AList.update (address_key (trader_wallet_address row)) (update_wallet row (new_wallet row)) acc"
  using assms
  by (auto simp: walletActivity_step_def Let_def split: if_splits option.splits)

lemma truthy_address_iff: "truthy_address c \<longleftrightarrow> (\<exists>a. c = Address a \<and> a \<noteq> [])"
  by (cases c) (simp_all add: truthy_address_def)

lemma address_key_Address: "address_key (Address a) = a"
  by (simp add: address_key_def)

lemma distinct_walletActivity:
  "walletActivity rows = Inr wallets \<Longrightarrow> distinct (map fst wallets)"
proof (induction rows arbitrary: wallets rule: rev_induct)
  case Nil
  then show ?case by (simp add: walletActivity_Nil)
next
  case (snoc row rows)
  then obtain a where a: "walletActivity rows = Inr a" "walletActivity_step a row = Inr wallets"
    by (auto simp: walletActivity_snoc_Inr)
  from a(2) snoc.IH [OF a(1)] show ?case
    by (cases rule: walletActivity_step_cases) (simp_all add: distinct_update)
qed


lemma walletActivity_keys:
  "walletActivity rows = Inr wallets \<Longrightarrow>
     fst ` set wallets =
       {a. a \<noteq> [] \<and> a \<notin> set object_prototype_keys
          \<and> Address a \<in> trader_wallet_address ` set rows}"
proof (induction rows arbitrary: wallets rule: rev_induct)
  case Nil
  then show ?case by (auto simp: walletActivity_Nil)
next
  case (snoc row rows)
  then obtain acc where acc: "walletActivity rows = Inr acc" "walletActivity_step acc row = Inr wallets"
    by (auto simp: walletActivity_snoc_Inr)
  note IH = snoc.IH [OF acc(1)]
  from acc(2) show ?case
  proof (cases rule: walletActivity_step_cases)
    case skip
    then have "\<And>a. a \<noteq> [] \<Longrightarrow> Address a \<noteq> trader_wallet_address row"
      by (auto simp: truthy_address_iff)
    with skip IH show ?thesis
      by auto
  next
    case (known wallet)
    then obtain k where k: "trader_wallet_address row = Address k" "k \<noteq> []"
      by (auto simp: truthy_address_iff)
    from known(2) have "k \<in> fst ` set acc"
      unfolding k address_key_Address by (metis domI dom_map_of_conv_image_fst)
    with known(3) k IH show ?thesis
      by (auto simp: address_key_Address AList.dom_update)
  next
    case inherited
    then obtain k where k: "trader_wallet_address row = Address k" "k \<noteq> []"
      by (auto simp: truthy_address_iff)
    with inherited IH show ?thesis
      by (auto simp: address_key_Address)
  next
    case fresh
    then obtain k where k: "trader_wallet_address row = Address k" "k \<noteq> []"
      by (auto simp: truthy_address_iff)
    with fresh IH show ?thesis
      by (auto simp: address_key_Address AList.dom_update)
  qed
qed

lemma prototype_key_never_own:
  assumes "walletActivity rows = Inr wallets" "k \<in> set object_prototype_keys"
  shows "map_of wallets k = None"
proof -
  have "k \<notin> fst ` set wallets"
    using walletActivity_keys [OF assms(1)] assms(2) by auto
  then show ?thesis
    by (simp add: map_of_eq_None_iff)
qed

lemma walletActivity_succeeds_iff:
  "(\<exists>wallets. walletActivity rows = Inr wallets) \<longleftrightarrow> (\<forall>row \<in> set rows. \<not> throwing_row row)"
proof (induction rows rule: rev_induct)
  case Nil
  show ?case by (simp add: walletActivity_Nil)
next
  case (snoc row rows)
  show ?case
  proof (cases "\<exists>acc. walletActivity rows = Inr acc")
    case False
    then have "\<not> (\<exists>wallets. walletActivity (rows @ [row]) = Inr wallets)"
      by (auto simp: walletActivity_snoc_Inr)
    with False snoc show ?thesis by auto
  next
    case True
    then obtain acc where acc: "walletActivity rows = Inr acc" by blast
    have "(\<exists>w. walletActivity_step acc row = Inr w) \<longleftrightarrow> \<not> throwing_row row"
    proof (cases "truthy_address (trader_wallet_address row)
        \<and> address_key (trader_wallet_address row) \<in> set object_prototype_keys")
      case True
      then have "map_of acc (address_key (trader_wallet_address row)) = None"
        using prototype_key_never_own [OF acc] by simp
      with True show ?thesis
        by (auto simp: walletActivity_step_def throwing_row_def Let_def)
    next
      case False
      then show ?thesis
        by (auto simp: walletActivity_step_def throwing_row_def Let_def split: option.splits)
    qed
    with acc snoc True show ?thesis
      by (auto simp: walletActivity_snoc_Inr)
  qed
qed

lemma walletActivity_from_skip:
  "walletActivity_from acc rows
     = walletActivity_from acc (filter (\<lambda>tx. truthy_address (trader_wallet_address tx)) rows)"
proof (induction rows arbitrary: acc)
  case Nil
  show ?case by simp
next
  case (Cons row rows)
  show ?case
  proof (cases "truthy_address (trader_wallet_address row)")
    case True
    with Cons show ?thesis by (simp split: sum.splits)
  next
    case False
    then have "walletActivity_step acc row = Inr acc"
      by (simp add: walletActivity_step_def)
    with False Cons show ?thesis by simp
  qed
qed

text \<open>
  A buy of a wallet named \<open>constructor\<close> ends the loop, and the analysis, with a
  \<open>TypeError\<close>; a transfer of a wallet named \<open>toString\<close> passes and leaves no
  profile.
\<close>

lemma inherited_names_evaluated:
  "walletActivity (sortedData inherited_buy_rows) = Inl TypeError
   \<and> analysis inherited_buy_rows = Inl TypeError
   \<and> map_sum id (map fst) (walletActivity (sortedData inherited_transfer_rows)) = Inr [''A'']"
  by code_simp

subsection \<open>Wallet profiles and their suspicion score\<close>

lemma wallet_score_sum:
  "wallet_score wallet =
       (if totalValue wallet > 10 * WHALE_THRESHOLD then 5
        else if totalValue wallet > WHALE_THRESHOLD then 3 else 0)
     + (if js_gt (buyToSellRatio wallet) 10 \<or> js_lt (buyToSellRatio wallet) 0.1 then 3 else 0)
     + (if transactionFrequency wallet > 10 then 3
        else if transactionFrequency wallet > 5 then 2 else 0)
     + (if timeActiveHours wallet < 1 \<and> transactionCount wallet > 20 then 4 else 0)
     + (if netSOLChange wallet > 10 then 3 else 0)"
  by (simp add: wallet_score_def Let_def mult.commute)

lemma wallet_score_score_wallet: "wallet_score (score_wallet w) = wallet_score w"
  by (simp add: wallet_score_def score_wallet_def)

lemma seller_rows_wallets: "walletActivity (sortedData seller_rows) = Inr seller_wallets"
  by code_simp

lemma seller_rows_profile:
  "suspectedManipulators seller_wallets =
     [\<lparr> address = ''W'', totalValue = 150000, buyToSellRatio = Num 0,
        transactionCount = 12, timeActiveHours = 2, transactionFrequency = 6,
        netSOLChange = 15, suspiciousScore = 13 \<rparr>]"
  by code_simp

text \<open>
  Claim C5.  The suspicion score of every wallet in the scored list is the sum of five
  independent increments read off its profile: 5 for a total value above ten times the
  whale threshold, else 3 above the whale threshold; 3 for a buy-to-sell ratio above 10
  or below 0.1; 3 for a transaction frequency above 10, else 2 above 5; 4 for less than
  one active hour with more than 20 transactions; 3 for a net balance change above 10.
  The wallet of the example scores 13.
\<close>

theorem wallet_suspicion_score:
  "(\<forall>wallet \<in> set (suspectedManipulators wallets).
      suspiciousScore wallet =
        (if totalValue wallet > 10 * WHALE_THRESHOLD then 5
         else if totalValue wallet > WHALE_THRESHOLD then 3 else 0)
      + (if js_gt (buyToSellRatio wallet) 10 \<or> js_lt (buyToSellRatio wallet) 0.1 then 3 else 0)
      + (if transactionFrequency wallet > 10 then 3
         else if transactionFrequency wallet > 5 then 2 else 0)
      + (if timeActiveHours wallet < 1 \<and> transactionCount wallet > 20 then 4 else 0)
      + (if netSOLChange wallet > 10 then 3 else 0))
   \<and> wallet_score example_wallet = 13"
proof
  show "wallet_score example_wallet = 13"
    by (simp add: wallet_score_def example_wallet_def js_gt_def js_lt_def WHALE_THRESHOLD_def)
next
  show "\<forall>wallet \<in> set (suspectedManipulators wallets).
      suspiciousScore wallet =
        (if totalValue wallet > 10 * WHALE_THRESHOLD then 5
         else if totalValue wallet > WHALE_THRESHOLD then 3 else 0)
      + (if js_gt (buyToSellRatio wallet) 10 \<or> js_lt (buyToSellRatio wallet) 0.1 then 3 else 0)
      + (if transactionFrequency wallet > 10 then 3
         else if transactionFrequency wallet > 5 then 2 else 0)
      + (if timeActiveHours wallet < 1 \<and> transactionCount wallet > 20 then 4 else 0)
      + (if netSOLChange wallet > 10 then 3 else 0)"
  proof
    fix wallet
    assume "wallet \<in> set (suspectedManipulators wallets)"
    then obtain p where w: "wallet = score_wallet p"
      by (auto simp: suspectedManipulators_def)
    have "suspiciousScore wallet = wallet_score wallet"
      by (simp add: w wallet_score_score_wallet) (simp add: score_wallet_def)
    then show "suspiciousScore wallet =
        (if totalValue wallet > 10 * WHALE_THRESHOLD then 5
         else if totalValue wallet > WHALE_THRESHOLD then 3 else 0)
      + (if js_gt (buyToSellRatio wallet) 10 \<or> js_lt (buyToSellRatio wallet) 0.1 then 3 else 0)
      + (if transactionFrequency wallet > 10 then 3
         else if transactionFrequency wallet > 5 then 2 else 0)
      + (if timeActiveHours wallet < 1 \<and> transactionCount wallet > 20 then 4 else 0)
      + (if netSOLChange wallet > 10 then 3 else 0)"
      by (simp only: wallet_score_sum)
  qed
qed

theorem wallet_suspicion_score_witness:
  "walletActivity (sortedData seller_rows) = Inr seller_wallets
   \<and> map suspiciousScore (suspectedManipulators seller_wallets) = [13]
   \<and> map totalValue (suspectedManipulators seller_wallets) = [150000]
   \<and> map transactionFrequency (suspectedManipulators seller_wallets) = [6]"
  using wallet_suspicion_score [of seller_wallets] seller_rows_wallets
  by (simp add: seller_rows_profile js_gt_def js_lt_def WHALE_THRESHOLD_def)

lemma scored_profile_ratio:
  "address (score_wallet (wallet_profile entry)) = fst entry"
  "buyToSellRatio (score_wallet (wallet_profile entry))
     = wallet_buyToSellRatio (buys_count (snd entry)) (sells_count (snd entry))"
  by (simp_all add: score_wallet_def wallet_profile_def Let_def)

lemma ratio_rows_wallets: "walletActivity (sortedData ratio_rows) = Inr ratio_wallets"
  by code_simp

lemma ratio_rows_counts:
  "map (\<lambda>e. (fst e, buys_count (snd e), sells_count (snd e))) ratio_wallets
     = [(''P'', 12, 0), (''Q'', 0, 0), (''R'', 9, 3)]"
  by code_simp

lemma ratio_rows_ratios:
  "map buyToSellRatio (suspectedManipulators ratio_wallets) = [PosInfinity, Num 0, Num 3]"
  by code_simp

text \<open>
  Claim C6.  The buy-to-sell ratio of every wallet profile follows the fixed convention
  and is always a value, never an exception: every scored wallet belongs to the entry
  of the wallet map with its address (the addresses of the map that the wallet loop
  builds are distinct), and its ratio is buys over sells when both counts are positive,
  \<open>Infinity\<close> when there are buys and no sell, and 0 when both counts are 0.  So 12
  buys and no sell give \<open>Infinity\<close>, no trade of either side gives 0, and 9 buys with
  3 sells give 3.
\<close>

theorem buyToSellRatio_convention:
  "(\<forall>w \<in> set (suspectedManipulators wallets). \<exists>entry \<in> set wallets.
        address w = fst entry
      \<and> (let b = buys_count (snd entry); s = sells_count (snd entry); ratio = buyToSellRatio w
         in (b > 0 \<and> s > 0 \<longrightarrow> ratio = Num (real b / real s))
          \<and> (b > 0 \<and> s = 0 \<longrightarrow> ratio = PosInfinity)
          \<and> (b = 0 \<and> s = 0 \<longrightarrow> ratio = Num 0)))
   \<and> map address (suspectedManipulators wallets) = map fst wallets
   \<and> (walletActivity rows = Inr wallets \<longrightarrow> distinct (map fst wallets))
   \<and> wallet_buyToSellRatio 12 0 = PosInfinity
   \<and> wallet_buyToSellRatio 0 0 = Num 0
   \<and> wallet_buyToSellRatio 9 3 = Num 3"
proof (intro conjI ballI impI)
  fix w assume "w \<in> set (suspectedManipulators wallets)"
  then obtain entry where e: "entry \<in> set wallets"
    and w: "w = score_wallet (wallet_profile entry)"
    by (auto simp: suspectedManipulators_def)
  have "address w = fst entry
      \<and> (let b = buys_count (snd entry); s = sells_count (snd entry); ratio = buyToSellRatio w
         in (b > 0 \<and> s > 0 \<longrightarrow> ratio = Num (real b / real s))
          \<and> (b > 0 \<and> s = 0 \<longrightarrow> ratio = PosInfinity)
          \<and> (b = 0 \<and> s = 0 \<longrightarrow> ratio = Num 0))"
    unfolding w scored_profile_ratio by (simp add: wallet_buyToSellRatio_def)
  with e show "\<exists>entry \<in> set wallets.
        address w = fst entry
      \<and> (let b = buys_count (snd entry); s = sells_count (snd entry); ratio = buyToSellRatio w
         in (b > 0 \<and> s > 0 \<longrightarrow> ratio = Num (real b / real s))
          \<and> (b > 0 \<and> s = 0 \<longrightarrow> ratio = PosInfinity)
          \<and> (b = 0 \<and> s = 0 \<longrightarrow> ratio = Num 0))"
    by blast
next
  show "map address (suspectedManipulators wallets) = map fst wallets"
    by (simp add: suspectedManipulators_def scored_profile_ratio(1))
next
  assume "walletActivity rows = Inr wallets"
  then show "distinct (map fst wallets)"
    by (rule distinct_walletActivity)
qed (simp_all add: wallet_buyToSellRatio_def)

theorem buyToSellRatio_convention_witness:
  "walletActivity (sortedData ratio_rows) = Inr ratio_wallets
   \<and> map (\<lambda>e. (fst e, buys_count (snd e), sells_count (snd e))) ratio_wallets
     = [(''P'', 12, 0), (''Q'', 0, 0), (''R'', 9, 3)]
   \<and> map buyToSellRatio (suspectedManipulators ratio_wallets) = [PosInfinity, Num 0, Num 3]
   \<and> distinct (map fst ratio_wallets)"
  using buyToSellRatio_convention [of ratio_wallets "sortedData ratio_rows"]
    ratio_rows_wallets ratio_rows_counts ratio_rows_ratios
  by simp

subsection \<open>The normalised trade sequence\<close>

lemma TOKEN_SELL_neq_BUY: "TOKEN_SELL \<noteq> TOKEN_BUY" "TOKEN_BUY \<noteq> TOKEN_SELL"
  by (simp_all add: TOKEN_BUY_def TOKEN_SELL_def)

lemma process_row_value:
  "process_row row = Some t \<Longrightarrow> price t = Some p \<Longrightarrow> transaction_value t = active_amount t * p"
  by (auto simp: process_row_def row_transaction_value_def truthy_def or_zero_def
      active_amount_def TOKEN_SELL_neq_BUY split: if_splits option.splits)

lemma process_row_unpriced:
  "process_row row = Some t \<Longrightarrow> price t = None \<Longrightarrow> transaction_value t = 0"
  by (auto simp: process_row_def row_transaction_value_def truthy_def TOKEN_SELL_neq_BUY
      split: if_splits option.splits)

lemma processedData_elem:
  "t \<in> set (processedData data) \<Longrightarrow> \<exists>row \<in> set data. process_row row = Some t"
  by (auto simp: processedData_def List.map_filter_def)

lemma shuffled_rows_sorted:
  "map (\<lambda>t. (trade_timestamp t, trader_wallet_address t, price t, transaction_value t, active_amount t))
     (sortedData shuffled_rows)
   = [(10, Address ''B'', Some 4, 20, 5), (10, Address ''C'', Some 6, 42, 7),
      (20, Address ''A'', Some 2, 6, 3), (50, Address ''A'', None, 0, 5)]"
  by code_simp

lemma shuffled_rows_processed:
  "map (\<lambda>t. (trade_timestamp t, trader_wallet_address t)) (processedData shuffled_rows)
   = [(20, Address ''A''), (10, Address ''B''), (10, Address ''C''), (50, Address ''A'')]"
  by code_simp

text \<open>
  Claim C7, as the script has it.  For every list of raw rows the normalised sequence
  is sorted by timestamp, non-decreasing, and the sort is stable: the records of any one
  timestamp stand in the order the valid rows had in the input.  Every record whose
  price is a number satisfies \<open>value = amount * price\<close> for its own side.  A record
  whose price cell was empty is kept all the same, with value 0 and a \<open>NaN\<close> price.
\<close>

theorem normalized_sorted_stable_value:
  "sorted (map trade_timestamp (sortedData data))
   \<and> (\<forall>k. filter (\<lambda>t. trade_timestamp t = k) (sortedData data)
          = filter (\<lambda>t. trade_timestamp t = k) (processedData data))
   \<and> (\<forall>t \<in> set (sortedData data).
         (price t \<noteq> None \<longrightarrow> value_is_amount_times_price t)
       \<and> (price t = None \<longrightarrow> transaction_value t = 0))"
proof (intro conjI allI ballI impI)
  show "sorted (map trade_timestamp (sortedData data))"
    by (simp add: sortedData_def)
next
  fix k
  show "filter (\<lambda>t. trade_timestamp t = k) (sortedData data)
          = filter (\<lambda>t. trade_timestamp t = k) (processedData data)"
    by (simp add: sortedData_def sort_key_stable)
next
  fix t assume "t \<in> set (sortedData data)" and p: "price t \<noteq> None"
  then obtain row where "process_row row = Some t"
    using processedData_elem [of t data] by (auto simp: sortedData_def)
  with p show "value_is_amount_times_price t"
    by (auto simp: value_is_amount_times_price_def dest: process_row_value)
next
  fix t assume "t \<in> set (sortedData data)" and p: "price t = None"
  then obtain row where "process_row row = Some t"
    using processedData_elem [of t data] by (auto simp: sortedData_def)
  with p show "transaction_value t = 0"
    by (rule process_row_unpriced [rotated])
qed

theorem normalized_sorted_stable_value_witness:
  "map (\<lambda>t. (trade_timestamp t, trader_wallet_address t, price t, transaction_value t, active_amount t))
     (sortedData shuffled_rows)
   = [(10, Address ''B'', Some 4, 20, 5), (10, Address ''C'', Some 6, 42, 7),
      (20, Address ''A'', Some 2, 6, 3), (50, Address ''A'', None, 0, 5)]
   \<and> map (\<lambda>t. (trade_timestamp t, trader_wallet_address t)) (processedData shuffled_rows)
   = [(20, Address ''A''), (10, Address ''B''), (10, Address ''C''), (50, Address ''A'')]
   \<and> sorted (map trade_timestamp (sortedData shuffled_rows))"
  using normalized_sorted_stable_value [of shuffled_rows] shuffled_rows_sorted shuffled_rows_processed
  by simp

text \<open>
  The claim as the specification words it asks the equality of every record.  The
  unpriced buy is a valid row for the normaliser; its record has amount 5, value 0 and
  no price, and the equality fails.
\<close>

theorem value_product_counterexample:
  "map value_is_amount_times_price (sortedData [unpriced_row]) = [False]
   \<and> map transaction_value (sortedData [unpriced_row]) = [0]
   \<and> map buy_amount (sortedData [unpriced_row]) = [5]
   \<and> map price (sortedData [unpriced_row]) = [None]"
  by code_simp

subsection \<open>Time buckets\<close>

lemma bucket_key_iff:
  assumes "0 < w"
  shows "bucket_key w t = k \<longleftrightarrow> (w dvd k \<and> k \<le> trade_timestamp t \<and> trade_timestamp t < k + w)"
proof
  assume "bucket_key w t = k"
  then have k: "k = (trade_timestamp t div w) * w"
    by (simp add: bucket_key_def)
  have "trade_timestamp t = (trade_timestamp t div w) * w + trade_timestamp t mod w"
    by simp
  moreover have "0 \<le> trade_timestamp t mod w" "trade_timestamp t mod w < w"
    using assms by simp_all
  ultimately show "w dvd k \<and> k \<le> trade_timestamp t \<and> trade_timestamp t < k + w"
    unfolding k by (metis add_le_cancel_left add_less_cancel_left add.right_neutral dvd_triv_right)
next
  assume a: "w dvd k \<and> k \<le> trade_timestamp t \<and> trade_timestamp t < k + w"
  then obtain q where q: "k = w * q"
    by (auto simp: dvd_def)
  have "trade_timestamp t div w = q"
    by (rule int_div_pos_eq [where r = "trade_timestamp t - k"]) (use a q in auto)
  then show "bucket_key w t = k"
    by (simp add: bucket_key_def q)
qed

text \<open>
  The buckets of the 600 and 300 second series: the key is the start of the window and
  the bucket holds exactly the trades of the window, in their order.
\<close>

lemma bucket_contents:
  assumes "0 < w" "(k, g) \<in> set (groupBy (bucket_key w) rows)"
  shows "g = filter (\<lambda>t. k \<le> trade_timestamp t \<and> trade_timestamp t < k + w) rows"
    and "\<exists>t \<in> set rows. k = (trade_timestamp t div w) * w"
proof -
  from assms(2) have k: "k \<in> bucket_key w ` set rows"
    and g: "g = filter (\<lambda>t. bucket_key w t = k) rows"
    by (simp_all add: groupBy_entry_iff)
  from k show "\<exists>t \<in> set rows. k = (trade_timestamp t div w) * w"
    by (auto simp: bucket_key_def)
  then have "w dvd k" by auto
  then have "\<And>t. bucket_key w t = k \<longleftrightarrow> k \<le> trade_timestamp t \<and> trade_timestamp t < k + w"
    using assms(1) by (simp add: bucket_key_iff)
  then show "g = filter (\<lambda>t. k \<le> trade_timestamp t \<and> trade_timestamp t < k + w) rows"
    by (simp add: g)
qed

text \<open>
  Claim C8.  Every bucket, the hourly ones of the whale-entry detector included, should
  be keyed by \<open>floor(timestamp / W) * W\<close>, so that a whale entry carries the start of
  its hour in epoch seconds.  The hourly grouping of the script uses
  \<open>floor(timestamp / 3600)\<close> without the multiplication: for two whale buys at 7200 and
  7300 seconds the entry carries the timestamp 2, the index of the hour, where the hour
  starts at 7200 and the 600 and 300 second buckets of the same trades are keyed 7200.
\<close>

theorem whale_entry_timestamp_is_hour_index:
  "map we_timestamp (whaleEntries (sortedData whale_rows)) = [2]
   \<and> map we_transactions (whaleEntries (sortedData whale_rows)) = [2]
   \<and> map trade_timestamp (sortedData whale_rows) = [7200, 7300]
   \<and> map (bucket_key 3600) (sortedData whale_rows) = [7200, 7200]
   \<and> map fst (timeIntervals (sortedData whale_rows)) = [7200]
   \<and> map fst (detailedTimeIntervals (sortedData whale_rows)) = [7200]"
  by code_simp

subsection \<open>Market periods\<close>

lemma period_ends_before_latest:
  assumes "earliest \<le> latest" "i < 6"
  shows "earliest + (int i + 1) * periodDuration earliest latest \<le> latest"
proof -
  let ?d = "periodDuration earliest latest"
  have d0: "0 \<le> ?d"
    using assms by (simp add: periodDuration_def pos_imp_zdiv_nonneg_iff)
  have "6 * ?d \<le> latest - earliest"
    unfolding periodDuration_def by presburger
  moreover have "(int i + 1) * ?d \<le> 6 * ?d"
    using assms d0 by (intro mult_right_mono) auto
  ultimately show ?thesis by linarith
qed

lemma sorted_hd_le_last:
  fixes xs :: "int list"
  assumes "sorted xs" "xs \<noteq> []"
  shows "hd xs \<le> last xs"
proof -
  have "xs ! 0 \<le> xs ! (length xs - 1)"
    using assms by (intro sorted_nth_mono) auto
  then show ?thesis
    using assms by (simp add: hd_conv_nth last_conv_nth)
qed

text \<open>
  On a non-empty dataset the six periods exist and each of them ends at or before the
  latest timestamp.  A period takes the trades strictly before its end, so the trade at
  the latest timestamp belongs to no period, whatever the data.
\<close>

lemma periods_end_by_latest:
  assumes "rows \<noteq> []"
  shows "\<exists>ps. periods rows = Inr ps \<and> length ps = 6
           \<and> (\<forall>p \<in> set ps. endTime p \<le> trade_timestamp (last (sort_key trade_timestamp rows)))"
proof -
  let ?s = "sort_key trade_timestamp rows"
  let ?e = "trade_timestamp (hd ?s)" and ?l = "trade_timestamp (last ?s)"
  have ne: "?s \<noteq> []"
    using assms by (metis length_sort length_0_conv)
  have "sorted (map trade_timestamp ?s)" by simp
  then have "hd (map trade_timestamp ?s) \<le> last (map trade_timestamp ?s)"
    using ne by (intro sorted_hd_le_last) auto
  then have le: "?e \<le> ?l"
    using ne by (simp add: hd_map last_map)
  have ps: "periods rows = Inr (map (period_of rows ?e (periodDuration ?e ?l)) [0..<6])"
    using ne by (simp add: periods_def Let_def)
  have "\<forall>i < 6. endTime (period_of rows ?e (periodDuration ?e ?l) i) \<le> ?l"
    using period_ends_before_latest [OF le] by (simp add: period_of_def Let_def)
  then show ?thesis
    unfolding ps by auto
qed

text \<open>
  Claim C9.  The six periods should span the full observed range, every trade, the
  latest one included, lying in exactly one of them.  For seven trades at the seconds
  1 to 7 the periods of the script are \<open>[1,2)\<close> up to \<open>[6,7)\<close> with one trade each:
  the trade at second 7 lies in none.  For five trades at the seconds 1 to 5 the period
  duration is 0, all six periods are the empty interval \<open>[1,1)\<close>, and no trade lies in
  any period.
\<close>

theorem periods_miss_latest_trade:
  "map trade_timestamp (sortedData week_rows) = [1, 2, 3, 4, 5, 6, 7]
   \<and> period_bounds (periods (sortedData week_rows))
       = [(1, 2, 1), (2, 3, 1), (3, 4, 1), (4, 5, 1), (5, 6, 1), (6, 7, 1)]
   \<and> map trade_timestamp (sortedData burst_rows) = [1, 2, 3, 4, 5]
   \<and> period_bounds (periods (sortedData burst_rows))
       = [(1, 1, 0), (1, 1, 0), (1, 1, 0), (1, 1, 0), (1, 1, 0), (1, 1, 0)]"
  by code_simp

subsection \<open>Pump-and-dump candidates\<close>

lemma pump_candidate_pump: "pump_candidate rows p = Some c \<Longrightarrow> pump c = p"
  by (auto simp: pump_candidate_def Let_def split: if_splits)

lemma pump_candidate_Some_iff:
  "(\<exists>c. pump_candidate rows p = Some c)
     \<longleftrightarrow> length (retailBuysDuringPump rows p) > 5 \<and> length (whaleSellsAfterPump rows p) > 0"
  by (simp add: pump_candidate_def Let_def)

lemma set_map_filter: "set (List.map_filter f xs) = {y. \<exists>x \<in> set xs. f x = Some y}"
  by (force simp: List.map_filter_def)

lemma pump_pattern_iff:
  "(\<exists>c \<in> set (pumpAndDumpPatterns_of rows changes). pump c = p)
     \<longleftrightarrow> p \<in> set changes \<and> percentChange p > 10
         \<and> length (retailBuysDuringPump rows p) > 5 \<and> length (whaleSellsAfterPump rows p) > 0"
proof -
  have "(\<exists>c \<in> set (pumpAndDumpPatterns_of rows changes). pump c = p)
     \<longleftrightarrow> p \<in> set changes \<and> percentChange p > 10 \<and> (\<exists>c. pump_candidate rows p = Some c)"
    unfolding pumpAndDumpPatterns_of_def set_map_filter
    using pump_candidate_pump by fastforce
  then show ?thesis
    by (simp only: pump_candidate_Some_iff)
qed

lemma pump_rows_8:
  "map percentChange (priceChanges (sortedData (pump_rows 8))) = [15]
   \<and> map retailBuysCount (pumpAndDumpPatterns (sortedData (pump_rows 8))) = [8]
   \<and> map whaleSellsCount (pumpAndDumpPatterns (sortedData (pump_rows 8))) = [2]"
  by code_simp

lemma pump_rows_4:
  "map percentChange (priceChanges (sortedData (pump_rows 4))) = [15]
   \<and> pumpAndDumpPatterns (sortedData (pump_rows 4)) = []"
  by code_simp

text \<open>
  Claim C3, as the script has it.  For every price-change event with a percent change
  above 10, a pump-and-dump candidate with that event is emitted if and only if more
  than 5 buy trades with a value in \<open>(0, RETAIL_THRESHOLD]\<close> have a timestamp in the
  event window, both bounds included, and at least one sell trade with a value of at
  least \<open>MEDIUM_THRESHOLD\<close> has a timestamp in \<open>(eventEnd, eventEnd + 1800]\<close>.  Every
  candidate comes from such an event; in particular four retail buys give none.
\<close>

theorem pump_and_dump_candidates:
  "(\<forall>p \<in> set (priceChanges rows). percentChange p > 10 \<longrightarrow>
      ((\<exists>c \<in> set (pumpAndDumpPatterns rows). pump c = p)
        \<longleftrightarrow> length (filter (\<lambda>tx. tx_type tx = TOKEN_BUY
                  \<and> trade_timestamp tx \<ge> startTimestamp p
                  \<and> trade_timestamp tx \<le> endTimestamp p
                  \<and> transaction_value tx > 0
                  \<and> transaction_value tx \<le> RETAIL_THRESHOLD) rows) > 5
            \<and> (\<exists>tx \<in> set rows. tx_type tx = TOKEN_SELL
                  \<and> trade_timestamp tx > endTimestamp p
                  \<and> trade_timestamp tx \<le> endTimestamp p + 1800
                  \<and> transaction_value tx \<ge> MEDIUM_THRESHOLD)))
   \<and> (\<forall>c \<in> set (pumpAndDumpPatterns rows).
         pump c \<in> set (priceChanges rows) \<and> percentChange (pump c) > 10
         \<and> retailBuysCount c > 5 \<and> whaleSellsCount c > 0)"
proof (intro conjI ballI impI)
  fix p assume "p \<in> set (priceChanges rows)" "percentChange p > 10"
  then show "(\<exists>c \<in> set (pumpAndDumpPatterns rows). pump c = p)
        \<longleftrightarrow> length (filter (\<lambda>tx. tx_type tx = TOKEN_BUY
                  \<and> trade_timestamp tx \<ge> startTimestamp p
                  \<and> trade_timestamp tx \<le> endTimestamp p
                  \<and> transaction_value tx > 0
                  \<and> transaction_value tx \<le> RETAIL_THRESHOLD) rows) > 5
            \<and> (\<exists>tx \<in> set rows. tx_type tx = TOKEN_SELL
                  \<and> trade_timestamp tx > endTimestamp p
                  \<and> trade_timestamp tx \<le> endTimestamp p + 1800
                  \<and> transaction_value tx \<ge> MEDIUM_THRESHOLD)"
    unfolding pumpAndDumpPatterns_def pump_pattern_iff
    by (auto simp: retailBuysDuringPump_def whaleSellsAfterPump_def filter_empty_conv)
next
  fix c assume c: "c \<in> set (pumpAndDumpPatterns rows)"
  then obtain p where p: "p \<in> set (priceChanges rows)" "percentChange p > 10"
      "pump_candidate rows p = Some c"
    by (auto simp: pumpAndDumpPatterns_def pumpAndDumpPatterns_of_def set_map_filter)
  then show "pump c \<in> set (priceChanges rows)" "percentChange (pump c) > 10"
    by (simp_all add: pump_candidate_pump)
  from p(3) show "retailBuysCount c > 5" "whaleSellsCount c > 0"
    by (auto simp: pump_candidate_def Let_def split: if_splits)
qed

theorem pump_and_dump_candidates_witness:
  "map percentChange (priceChanges (sortedData (pump_rows 8))) = [15]
   \<and> map retailBuysCount (pumpAndDumpPatterns (sortedData (pump_rows 8))) = [8]
   \<and> map whaleSellsCount (pumpAndDumpPatterns (sortedData (pump_rows 8))) = [2]
   \<and> map percentChange (priceChanges (sortedData (pump_rows 4))) = [15]
   \<and> pumpAndDumpPatterns (sortedData (pump_rows 4)) = []"
  using pump_and_dump_candidates [of "sortedData (pump_rows 8)"] pump_rows_8 pump_rows_4
  by simp

text \<open>
  With the window read as strictly inside, the six buys at second 600 would not count
  for the event from 600 to 1200, and no candidate would be emitted.  The script counts
  them and emits the candidate.
\<close>

theorem pump_window_counterexample:
  "map startTimestamp (priceChanges (sortedData boundary_pump_rows)) = [600]
   \<and> map endTimestamp (priceChanges (sortedData boundary_pump_rows)) = [1200]
   \<and> map percentChange (priceChanges (sortedData boundary_pump_rows)) = [100]
   \<and> map (strict_retail_buy_count (sortedData boundary_pump_rows))
        (priceChanges (sortedData boundary_pump_rows)) = [0]
   \<and> map retailBuysCount (pumpAndDumpPatterns (sortedData boundary_pump_rows)) = [6]
   \<and> map whaleSellsCount (pumpAndDumpPatterns (sortedData boundary_pump_rows)) = [1]"
  by code_simp

subsection \<open>Wash traders of a bucket\<close>

lemma length_set_elements: "length (set_elements xs) = card (set xs)"
  by (simp add: set_elements_def) (metis length_remdups_card_conv set_rev)

lemma walletActions_snoc:
  "walletActions (txs @ [tx]) = walletActions_step (walletActions txs) tx"
  by (simp add: walletActions_def)

lemma walletActions_step_cases:
  obtains (skip) "\<not> truthy_address (trader_wallet_address tx)" "walletActions_step acc tx = acc"
  | (known) k actions where "trader_wallet_address tx = Address k" "k \<noteq> []"
      "map_of acc k = Some actions"
      "walletActions_step acc tx = AList.update k (count_action tx actions) acc"
  | (inherited) k where "trader_wallet_address tx = Address k" "k \<noteq> []"
      "map_of acc k = None" "k \<in> set object_prototype_keys"
      "walletActions_step acc tx = acc"
  | (fresh) k where "trader_wallet_address tx = Address k" "k \<noteq> []"
      "map_of acc k = None" "k \<notin> set object_prototype_keys"
      "walletActions_step acc tx = AList.update k (count_action tx (0, 0)) acc"
proof (cases "truthy_address (trader_wallet_address tx)")
  case False
  then show ?thesis
    by (intro skip) (simp_all add: walletActions_step_def)
next
  case True
  then obtain k where k: "trader_wallet_address tx = Address k" "k \<noteq> []"
    by (auto simp: truthy_address_iff)
  show ?thesis
  proof (cases "map_of acc k")
    case (Some actions)
    with True k show ?thesis
      by (intro known [of k actions]) (simp_all add: walletActions_step_def address_key_Address)
  next
    case None
    with True k show ?thesis
      by (cases "k \<in> set object_prototype_keys")
        (auto intro: inherited [of k] fresh [of k] simp: walletActions_step_def address_key_Address)
  qed
qed

lemma distinct_walletActions: "distinct (map fst (walletActions txs))"
proof (induction txs rule: rev_induct)
  case Nil
  show ?case by (simp add: walletActions_def)
next
  case (snoc tx txs)
  show ?case
    by (cases tx "walletActions txs" rule: walletActions_step_cases)
      (use snoc in \<open>simp_all add: walletActions_snoc distinct_update\<close>)
qed

lemma count_action_counts:
  "count_action tx (buys_of a txs, sells_of a txs)
     = (buys_of a txs + (if tx_type tx = TOKEN_BUY then 1 else 0),
        sells_of a txs + (if tx_type tx = TOKEN_SELL then 1 else 0))"
  by (simp add: count_action_def TOKEN_SELL_neq_BUY)

lemma counts_snoc:
  "buys_of a (txs @ [tx]) = buys_of a txs
     + (if trader_wallet_address tx = Address a \<and> tx_type tx = TOKEN_BUY then 1 else 0)"
  "sells_of a (txs @ [tx]) = sells_of a txs
     + (if trader_wallet_address tx = Address a \<and> tx_type tx = TOKEN_SELL then 1 else 0)"
  by (simp_all add: buys_of_def sells_of_def)

lemma counts_absent:
  assumes "Address a \<notin> trader_wallet_address ` set txs"
  shows "buys_of a txs = 0" "sells_of a txs = 0"
  using assms by (auto simp: buys_of_def sells_of_def filter_empty_conv image_iff)

text \<open>
  The object \<open>walletActions\<close> holds, for every non-empty address that is not an
  inherited name, its two counts.
\<close>

lemma map_of_walletActions:
  "map_of (walletActions txs) a =
     (if a \<noteq> [] \<and> a \<notin> set object_prototype_keys \<and> Address a \<in> trader_wallet_address ` set txs
      then Some (buys_of a txs, sells_of a txs) else None)"
proof (induction txs arbitrary: a rule: rev_induct)
  case Nil
  show ?case by (simp add: walletActions_def)
next
  case (snoc tx txs)
  let ?acc = "walletActions txs"
  show ?case
  proof (cases tx ?acc rule: walletActions_step_cases)
    case skip
    then have "a \<noteq> [] \<Longrightarrow> trader_wallet_address tx \<noteq> Address a"
      by (auto simp: truthy_address_iff)
    with skip snoc.IH [of a] show ?thesis
      by (auto simp: walletActions_snoc counts_snoc)
  next
    case (known k actions)
    then have kk: "k \<notin> set object_prototype_keys" "Address k \<in> trader_wallet_address ` set txs"
        "actions = (buys_of k txs, sells_of k txs)"
      using snoc.IH [of k] by (auto split: if_splits)
    show ?thesis
    proof (cases "a = k")
      case True
      with known kk show ?thesis
        by (simp add: walletActions_snoc update_conv' counts_snoc count_action_counts)
    next
      case False
      with known snoc.IH [of a] show ?thesis
        by (auto simp: walletActions_snoc update_conv' counts_snoc)
    qed
  next
    case (inherited k)
    with snoc.IH [of a] show ?thesis
      by (auto simp: walletActions_snoc counts_snoc)
  next
    case (fresh k)
    then have absent: "Address k \<notin> trader_wallet_address ` set txs"
      using snoc.IH [of k] by (auto split: if_splits)
    show ?thesis
    proof (cases "a = k")
      case True
      with fresh show ?thesis
        using counts_absent [OF absent] count_action_counts [of tx k txs]
        by (simp add: walletActions_snoc update_conv' counts_snoc)
    next
      case False
      with fresh snoc.IH [of a] show ?thesis
        by (auto simp: walletActions_snoc update_conv' counts_snoc)
    qed
  qed
qed


lemma distinct_potentialWashTraders: "distinct (potentialWashTraders_of txs)"
  unfolding potentialWashTraders_of_def
  by (intro distinct_map_filter distinct_walletActions)

lemma buys_of_pos:
  "buys_of a txs > 0 \<longleftrightarrow> (\<exists>tx \<in> set txs. trader_wallet_address tx = Address a \<and> tx_type tx = TOKEN_BUY)"
  by (simp add: buys_of_def filter_empty_conv)

lemma sells_of_pos:
  "sells_of a txs > 0 \<longleftrightarrow> (\<exists>tx \<in> set txs. trader_wallet_address tx = Address a \<and> tx_type tx = TOKEN_SELL)"
  by (simp add: sells_of_def filter_empty_conv)

lemma potentialWashTraders_iff:
  "a \<in> set (potentialWashTraders_of txs) \<longleftrightarrow>
     a \<noteq> [] \<and> a \<notin> set object_prototype_keys \<and> buys_of a txs > 0 \<and> sells_of a txs > 0"
proof -
  have "a \<in> set (potentialWashTraders_of txs) \<longleftrightarrow>
      (\<exists>c. map_of (walletActions txs) a = Some c \<and> fst c > 0 \<and> snd c > 0)"
    using distinct_walletActions [of txs]
    by (force simp: potentialWashTraders_of_def)
  also have "\<dots> \<longleftrightarrow> a \<noteq> [] \<and> a \<notin> set object_prototype_keys
      \<and> Address a \<in> trader_wallet_address ` set txs
      \<and> buys_of a txs > 0 \<and> sells_of a txs > 0"
    by (simp add: map_of_walletActions)
  also have "\<dots> \<longleftrightarrow> a \<noteq> [] \<and> a \<notin> set object_prototype_keys
      \<and> buys_of a txs > 0 \<and> sells_of a txs > 0"
    unfolding buys_of_pos by force
  finally show ?thesis .
qed

lemma set_potentialWashTraders:
  "set (potentialWashTraders_of txs) =
     {a. a \<noteq> [] \<and> a \<notin> set object_prototype_keys
        \<and> (\<exists>tx \<in> set txs. trader_wallet_address tx = Address a \<and> tx_type tx = TOKEN_BUY)
        \<and> (\<exists>tx \<in> set txs. trader_wallet_address tx = Address a \<and> tx_type tx = TOKEN_SELL)}"
  using potentialWashTraders_iff [of _ txs]
  by (simp add: set_eq_iff buys_of_pos sells_of_pos)

text \<open>
  Among trades that the wallet loop has passed, no buy and no sell carries an inherited
  name, and the exclusion of these names is void.
\<close>

lemma set_potentialWashTraders_passed:
  assumes "\<forall>tx \<in> set txs. \<not> throwing_row tx"
  shows "set (potentialWashTraders_of txs) =
     {a. a \<noteq> []
        \<and> (\<exists>tx \<in> set txs. trader_wallet_address tx = Address a \<and> tx_type tx = TOKEN_BUY)
        \<and> (\<exists>tx \<in> set txs. trader_wallet_address tx = Address a \<and> tx_type tx = TOKEN_SELL)}"
proof -
  have "a \<notin> set object_prototype_keys"
    if "a \<noteq> []" "tx \<in> set txs" "trader_wallet_address tx = Address a" "tx_type tx = TOKEN_BUY"
    for a tx
    using assms that by (auto simp: throwing_row_def truthy_address_def address_key_def)
  then show ?thesis
    unfolding set_potentialWashTraders by blast
qed

subsection \<open>Suspicious intervals and coordinated activities\<close>

lemma interval_fields:
  "ai_totalTransactions (activity_of_interval entry) = length (snd entry)"
  "uniqueWallets (activity_of_interval entry) = card (trader_wallet_address ` set (snd entry))"
  "washTradingCount (activity_of_interval entry) =
     card {a. a \<noteq> [] \<and> a \<notin> set object_prototype_keys
        \<and> (\<exists>tx \<in> set (snd entry). trader_wallet_address tx = Address a \<and> tx_type tx = TOKEN_BUY)
        \<and> (\<exists>tx \<in> set (snd entry). trader_wallet_address tx = Address a \<and> tx_type tx = TOKEN_SELL)}"
  "ai_buyToSellRatio (activity_of_interval entry) =
     interval_buyToSellRatio (length (filter (\<lambda>tx. tx_type tx = TOKEN_BUY) (snd entry)))
       (length (filter (\<lambda>tx. tx_type tx = TOKEN_SELL) (snd entry)))"
  "whaleTransactionsCount (activity_of_interval entry)
     = length (filter (\<lambda>tx. transaction_value tx \<ge> WHALE_THRESHOLD) (snd entry))"
proof -
  show "washTradingCount (activity_of_interval entry) =
     card {a. a \<noteq> [] \<and> a \<notin> set object_prototype_keys
        \<and> (\<exists>tx \<in> set (snd entry). trader_wallet_address tx = Address a \<and> tx_type tx = TOKEN_BUY)
        \<and> (\<exists>tx \<in> set (snd entry). trader_wallet_address tx = Address a \<and> tx_type tx = TOKEN_SELL)}"
    using distinct_card [OF distinct_potentialWashTraders, of "snd entry"]
    by (simp add: activity_of_interval_def Let_def set_potentialWashTraders)
qed (simp_all add: activity_of_interval_def Let_def length_set_elements)

lemma interval_score_sum:
  "ai_suspiciousScore (activity_of_interval entry) =
     (if ai_totalTransactions (activity_of_interval entry) > 20
         \<and> uniqueWallets (activity_of_interval entry) < 5 then 3 else 0)
     + 2 * washTradingCount (activity_of_interval entry)
     + (if js_gt (ai_buyToSellRatio (activity_of_interval entry)) 10
         \<or> js_lt (ai_buyToSellRatio (activity_of_interval entry)) 0.1 then 2 else 0)
     + (if length (filter (\<lambda>tx. transaction_value tx \<ge> WHALE_THRESHOLD) (snd entry)) > 3
        then 3 else 0)"
  by (simp add: activity_of_interval_def Let_def)

lemma interval_timestamp: "ai_timestamp (activity_of_interval entry) = fst entry"
  by (simp add: activity_of_interval_def Let_def)

lemma set_suspiciousActivityIntervals:
  "set (suspiciousActivityIntervals rows)
     = {i \<in> activity_of_interval ` set (detailedTimeIntervals rows). ai_suspiciousScore i > 0}"
  by (auto simp: suspiciousActivityIntervals_def set_object_entries)

lemma sorted_suspiciousActivityIntervals:
  "sorted_wrt (\<lambda>a b. ai_suspiciousScore a \<ge> ai_suspiciousScore b) (suspiciousActivityIntervals rows)"
proof -
  have "sorted (map (\<lambda>i. - int (ai_suspiciousScore i)) (suspiciousActivityIntervals rows))"
    unfolding suspiciousActivityIntervals_def by (rule sorted_sort_key)
  then show ?thesis
    by (simp add: sorted_map)
qed

lemma distinct_suspiciousActivityIntervals:
  "distinct (map ai_timestamp (suspiciousActivityIntervals rows))"
proof -
  let ?es = "object_entries (detailedTimeIntervals rows)"
  have "distinct (map fst ?es)"
    unfolding detailedTimeIntervals_def
    by (intro distinct_keys_object_entries distinct_keys_groupBy)
  moreover have "map ai_timestamp (map activity_of_interval ?es) = map fst ?es"
    by (simp add: interval_timestamp)
  ultimately have "distinct (map ai_timestamp (map activity_of_interval ?es))"
    by (simp only:)
  then have "distinct (map ai_timestamp
      (filter (\<lambda>interval. ai_suspiciousScore interval > 0) (map activity_of_interval ?es)))"
    by (rule distinct_map_filter)
  then show ?thesis
    unfolding suspiciousActivityIntervals_def by (simp add: distinct_map)
qed

lemma coordinated_iff:
  assumes "i \<in> set (suspiciousActivityIntervals rows)"
  shows "coordinated_of i \<in> set (coordinatedActivities rows) \<longleftrightarrow> is_coordinated i"
proof
  assume "is_coordinated i"
  with assms show "coordinated_of i \<in> set (coordinatedActivities rows)"
    by (simp add: coordinatedActivities_def)
next
  assume "coordinated_of i \<in> set (coordinatedActivities rows)"
  then obtain j where j: "j \<in> set (suspiciousActivityIntervals rows)" "is_coordinated j"
      "coordinated_of j = coordinated_of i"
    by (auto simp: coordinatedActivities_def)
  from j(3) have "ai_timestamp j = ai_timestamp i"
    by (simp add: coordinated_of_def)
  with j(1) assms distinct_suspiciousActivityIntervals [of rows] have "j = i"
    by (simp add: distinct_map inj_on_def)
  with j(2) show "is_coordinated i" by simp
qed

lemma detailed_bucket_contents:
  assumes "entry \<in> set (detailedTimeIntervals rows)"
  shows "snd entry = filter (\<lambda>t. fst entry \<le> trade_timestamp t \<and> trade_timestamp t < fst entry + 300) rows"
  using bucket_contents(1) [of 300 "fst entry" "snd entry" rows] assms
  by (simp add: detailedTimeIntervals_def)

lemma washTradingCount_passed:
  assumes "walletActivity rows = Inr wallets" "entry \<in> set (detailedTimeIntervals rows)"
  shows "washTradingCount (activity_of_interval entry) =
     card {a. a \<noteq> []
        \<and> (\<exists>tx \<in> set (snd entry). trader_wallet_address tx = Address a \<and> tx_type tx = TOKEN_BUY)
        \<and> (\<exists>tx \<in> set (snd entry). trader_wallet_address tx = Address a \<and> tx_type tx = TOKEN_SELL)}"
proof -
  have "\<forall>row \<in> set rows. \<not> throwing_row row"
    using assms(1) walletActivity_succeeds_iff [of rows] by blast
  moreover have "set (snd entry) \<subseteq> set rows"
    using detailed_bucket_contents [OF assms(2)] by (metis filter_is_subset)
  ultimately have "\<forall>tx \<in> set (snd entry). \<not> throwing_row tx"
    by blast
  then show ?thesis
    using distinct_card [OF distinct_potentialWashTraders, of "snd entry"]
    by (simp add: activity_of_interval_def Let_def set_potentialWashTraders_passed)
qed

text \<open>
  Claim C2, as the script has it.  Every bucket of the 300 second series holds exactly
  the trades of its window, and its composite score is 3 if it has more than 20
  transactions and fewer than 5 unique wallets, plus twice the number of wash traders,
  plus 2 if the buy-to-sell ratio is above 10 or below 0.1, plus 3 if more than 3 of its
  transactions have a value of at least \<open>WHALE_THRESHOLD\<close>.  The wash traders are the
  wallets with an own key in the bucket's object that both buy and sell in the bucket;
  on every dataset for which the wallet loop has finished these are all the non-empty
  addresses that both buy and sell there.  The retained buckets are those with a
  positive score, one per bucket, sorted by descending score.  A retained bucket is
  reported as a coordinated activity if and only if its score is at least 5 and it holds
  at least 2 whale transactions.
\<close>

theorem suspicious_interval_scores:
  "(\<forall>entry \<in> set (detailedTimeIntervals rows).
      snd entry = filter (\<lambda>t. fst entry \<le> trade_timestamp t \<and> trade_timestamp t < fst entry + 300) rows
    \<and> (let i = activity_of_interval entry in
        ai_suspiciousScore i =
            (if ai_totalTransactions i > 20 \<and> uniqueWallets i < 5 then 3 else 0)
          + 2 * washTradingCount i
          + (if js_gt (ai_buyToSellRatio i) 10 \<or> js_lt (ai_buyToSellRatio i) 0.1 then 2 else 0)
          + (if length (filter (\<lambda>tx. transaction_value tx \<ge> WHALE_THRESHOLD) (snd entry)) > 3
             then 3 else 0)
      \<and> ai_totalTransactions i = length (snd entry)
      \<and> uniqueWallets i = card (trader_wallet_address ` set (snd entry))
      \<and> washTradingCount i =
          card {a. a \<noteq> [] \<and> a \<notin> set object_prototype_keys
            \<and> (\<exists>tx \<in> set (snd entry). trader_wallet_address tx = Address a \<and> tx_type tx = TOKEN_BUY)
            \<and> (\<exists>tx \<in> set (snd entry). trader_wallet_address tx = Address a \<and> tx_type tx = TOKEN_SELL)}
      \<and> ai_buyToSellRatio i =
          interval_buyToSellRatio (length (filter (\<lambda>tx. tx_type tx = TOKEN_BUY) (snd entry)))
            (length (filter (\<lambda>tx. tx_type tx = TOKEN_SELL) (snd entry)))
      \<and> whaleTransactionsCount i
          = length (filter (\<lambda>tx. transaction_value tx \<ge> WHALE_THRESHOLD) (snd entry))))
   \<and> set (suspiciousActivityIntervals rows)
       = {i \<in> activity_of_interval ` set (detailedTimeIntervals rows). ai_suspiciousScore i > 0}
   \<and> distinct (map ai_timestamp (suspiciousActivityIntervals rows))
   \<and> sorted_wrt (\<lambda>a b. ai_suspiciousScore a \<ge> ai_suspiciousScore b) (suspiciousActivityIntervals rows)
   \<and> (\<forall>i \<in> set (suspiciousActivityIntervals rows).
        coordinated_of i \<in> set (coordinatedActivities rows)
          \<longleftrightarrow> ai_suspiciousScore i \<ge> 5 \<and> whaleTransactionsCount i \<ge> 2)
   \<and> ((\<exists>wallets. walletActivity rows = Inr wallets) \<longrightarrow>
        (\<forall>entry \<in> set (detailedTimeIntervals rows).
           washTradingCount (activity_of_interval entry) =
             card {a. a \<noteq> []
               \<and> (\<exists>tx \<in> set (snd entry). trader_wallet_address tx = Address a \<and> tx_type tx = TOKEN_BUY)
               \<and> (\<exists>tx \<in> set (snd entry). trader_wallet_address tx = Address a \<and> tx_type tx = TOKEN_SELL)}))"
proof (intro conjI ballI impI)
  fix entry assume "entry \<in> set (detailedTimeIntervals rows)"
  then show "snd entry = filter (\<lambda>t. fst entry \<le> trade_timestamp t \<and> trade_timestamp t < fst entry + 300) rows"
    by (rule detailed_bucket_contents)
next
  fix entry
  show "let i = activity_of_interval entry in
        ai_suspiciousScore i =
            (if ai_totalTransactions i > 20 \<and> uniqueWallets i < 5 then 3 else 0)
          + 2 * washTradingCount i
          + (if js_gt (ai_buyToSellRatio i) 10 \<or> js_lt (ai_buyToSellRatio i) 0.1 then 2 else 0)
          + (if length (filter (\<lambda>tx. transaction_value tx \<ge> WHALE_THRESHOLD) (snd entry)) > 3
             then 3 else 0)
      \<and> ai_totalTransactions i = length (snd entry)
      \<and> uniqueWallets i = card (trader_wallet_address ` set (snd entry))
      \<and> washTradingCount i =
          card {a. a \<noteq> [] \<and> a \<notin> set object_prototype_keys
            \<and> (\<exists>tx \<in> set (snd entry). trader_wallet_address tx = Address a \<and> tx_type tx = TOKEN_BUY)
            \<and> (\<exists>tx \<in> set (snd entry). trader_wallet_address tx = Address a \<and> tx_type tx = TOKEN_SELL)}
      \<and> ai_buyToSellRatio i =
          interval_buyToSellRatio (length (filter (\<lambda>tx. tx_type tx = TOKEN_BUY) (snd entry)))
            (length (filter (\<lambda>tx. tx_type tx = TOKEN_SELL) (snd entry)))
      \<and> whaleTransactionsCount i
          = length (filter (\<lambda>tx. transaction_value tx \<ge> WHALE_THRESHOLD) (snd entry))"
    unfolding Let_def
    using interval_score_sum [of entry] interval_fields [of entry] by (intro conjI)
next
  show "set (suspiciousActivityIntervals rows)
       = {i \<in> activity_of_interval ` set (detailedTimeIntervals rows). ai_suspiciousScore i > 0}"
    by (rule set_suspiciousActivityIntervals)
next
  show "distinct (map ai_timestamp (suspiciousActivityIntervals rows))"
    by (rule distinct_suspiciousActivityIntervals)
next
  show "sorted_wrt (\<lambda>a b. ai_suspiciousScore a \<ge> ai_suspiciousScore b) (suspiciousActivityIntervals rows)"
    by (rule sorted_suspiciousActivityIntervals)
next
  fix i assume "i \<in> set (suspiciousActivityIntervals rows)"
  then show "coordinated_of i \<in> set (coordinatedActivities rows)
          \<longleftrightarrow> ai_suspiciousScore i \<ge> 5 \<and> whaleTransactionsCount i \<ge> 2"
    by (simp add: coordinated_iff is_coordinated_def)
next
  fix entry
  assume "\<exists>wallets. walletActivity rows = Inr wallets"
    and "entry \<in> set (detailedTimeIntervals rows)"
  then show "washTradingCount (activity_of_interval entry) =
             card {a. a \<noteq> []
               \<and> (\<exists>tx \<in> set (snd entry). trader_wallet_address tx = Address a \<and> tx_type tx = TOKEN_BUY)
               \<and> (\<exists>tx \<in> set (snd entry). trader_wallet_address tx = Address a \<and> tx_type tx = TOKEN_SELL)}"
    using washTradingCount_passed by blast
qed

lemma interval_rows_eval:
  "map (\<lambda>i. (ai_timestamp i, ai_suspiciousScore i, washTradingCount i, whaleTransactionsCount i))
     (suspiciousActivityIntervals (sortedData interval_rows))
     = [(300, 6, 3, 2), (0, 2, 1, 0), (600, 2, 0, 0)]
   \<and> map ca_timestamp (coordinatedActivities (sortedData interval_rows)) = [300]
   \<and> map fst (detailedTimeIntervals (sortedData interval_rows)) = [0, 300, 600, 900]
   \<and> map_sum id (map fst) (walletActivity (sortedData interval_rows))
       = Inr [''D'', ''A'', ''B'', ''C'', ''E'', ''F'', ''G'']"
  by code_simp

theorem suspicious_interval_scores_witness:
  "map (\<lambda>i. (ai_timestamp i, ai_suspiciousScore i, washTradingCount i, whaleTransactionsCount i))
     (suspiciousActivityIntervals (sortedData interval_rows))
     = [(300, 6, 3, 2), (0, 2, 1, 0), (600, 2, 0, 0)]
   \<and> map ca_timestamp (coordinatedActivities (sortedData interval_rows)) = [300]
   \<and> map fst (detailedTimeIntervals (sortedData interval_rows)) = [0, 300, 600, 900]
   \<and> map_sum id (map fst) (walletActivity (sortedData interval_rows))
       = Inr [''D'', ''A'', ''B'', ''C'', ''E'', ''F'', ''G'']"
  using suspicious_interval_scores [of "sortedData interval_rows"] interval_rows_eval
  by simp

text \<open>
  The claim as the specification words it asks for two distinct whale wallets.  In this
  bucket the score is 6 and both whale transactions are made by one wallet: the bucket
  is reported as coordinated with a whale count of 1.
\<close>

theorem coordinated_whale_wallets_counterexample:
  "map ai_suspiciousScore (suspiciousActivityIntervals (sortedData single_whale_rows)) = [6]
   \<and> map uniqueWhaleWallets (suspiciousActivityIntervals (sortedData single_whale_rows)) = [1]
   \<and> map whaleTransactionsCount (suspiciousActivityIntervals (sortedData single_whale_rows)) = [2]
   \<and> map ca_suspiciousScore (coordinatedActivities (sortedData single_whale_rows)) = [6]
   \<and> map whaleCount (coordinatedActivities (sortedData single_whale_rows)) = [1]"
  by code_simp

subsection \<open>Trades without a wallet address\<close>

lemma walletActions_step_missing:
  "\<not> truthy_address (trader_wallet_address tx) \<Longrightarrow> walletActions_step acc tx = acc"
  by (simp add: walletActions_step_def)

lemma foldl_skip:
  assumes "\<And>acc x. \<not> P x \<Longrightarrow> f acc x = acc"
  shows "foldl f acc xs = foldl f acc (filter P xs)"
  using assms by (induction xs arbitrary: acc) auto

lemma walletActivity_ignores_missing:
  "walletActivity rows = walletActivity (filter (\<lambda>tx. truthy_address (trader_wallet_address tx)) rows)"
  unfolding walletActivity_def by (rule walletActivity_from_skip)

lemma walletActions_ignores_missing:
  "walletActions txs = walletActions (filter (\<lambda>tx. truthy_address (trader_wallet_address tx)) txs)"
  unfolding walletActions_def
  by (rule foldl_skip) (simp add: walletActions_step_missing)

lemma falsy_addresses:
  "{c. \<not> truthy_address c} = {AddrNull, AddrUndefined, AddrFalse, AddrZero, Address []}"
proof -
  have "\<not> truthy_address c \<longleftrightarrow> c \<in> {AddrNull, AddrUndefined, AddrFalse, AddrZero, Address []}" for c
    by (cases c) (simp_all add: truthy_address_def)
  then show ?thesis by blast
qed

lemma unique_wallets_split:
  "card (trader_wallet_address ` set txs)
     = card {c \<in> trader_wallet_address ` set txs. truthy_address c}
     + card {c \<in> trader_wallet_address ` set txs. \<not> truthy_address c}"
proof -
  let ?S = "trader_wallet_address ` set txs"
  have "?S = {c \<in> ?S. truthy_address c} \<union> {c \<in> ?S. \<not> truthy_address c}"
    by blast
  moreover have "card ({c \<in> ?S. truthy_address c} \<union> {c \<in> ?S. \<not> truthy_address c})
      = card {c \<in> ?S. truthy_address c} + card {c \<in> ?S. \<not> truthy_address c}"
    by (intro card_Un_disjoint) auto
  ultimately show ?thesis by (simp only:)
qed

lemma falsy_count_bounds:
  assumes "\<exists>tx \<in> set txs. \<not> truthy_address (trader_wallet_address tx)"
  shows "1 \<le> card {c \<in> trader_wallet_address ` set txs. \<not> truthy_address c}"
    and "card {c \<in> trader_wallet_address ` set txs. \<not> truthy_address c} \<le> 5"
proof -
  let ?F = "{c \<in> trader_wallet_address ` set txs. \<not> truthy_address c}"
  have "finite ?F" by simp
  moreover have "?F \<noteq> {}" using assms by auto
  ultimately show "1 \<le> card ?F"
    by (metis One_nat_def Suc_leI card_gt_0_iff)
  have "?F \<subseteq> {AddrNull, AddrUndefined, AddrFalse, AddrZero, Address []}"
    using falsy_addresses by blast
  then have "card ?F \<le> card {AddrNull, AddrUndefined, AddrFalse, AddrZero, Address []}"
    by (intro card_mono) simp_all
  then show "card ?F \<le> 5" by simp
qed

lemma falsy_count_one:
  assumes "\<exists>tx \<in> set txs. \<not> truthy_address (trader_wallet_address tx)"
    and "\<forall>tx \<in> set txs. \<forall>tx' \<in> set txs.
           \<not> truthy_address (trader_wallet_address tx) \<and> \<not> truthy_address (trader_wallet_address tx')
           \<longrightarrow> trader_wallet_address tx = trader_wallet_address tx'"
  shows "card {c \<in> trader_wallet_address ` set txs. \<not> truthy_address c} = 1"
proof -
  from assms(1) obtain tx0 where tx0: "tx0 \<in> set txs" "\<not> truthy_address (trader_wallet_address tx0)"
    by blast
  have "{c \<in> trader_wallet_address ` set txs. \<not> truthy_address c} = {trader_wallet_address tx0}"
    using tx0 assms(2) by auto
  then show ?thesis by simp
qed


text \<open>
  Claim C10, as the script has it.  A trade whose wallet address is missing, that is
  falsy (\<open>null\<close>, \<open>undefined\<close>, \<open>false\<close>, \<open>0\<close> or the empty string), never creates a
  wallet profile: the wallet loop gives the same result on the trades that have an
  address, and every key of the wallet map is the non-empty address of some trade.  Such
  a trade is never counted as a wash trader either: the wash traders of a bucket are
  those of its trades that have an address.  In the unique-wallet count of a bucket each
  distinct falsy value present counts as one wallet: the count is the number of distinct
  addresses present plus the number of distinct falsy values present, the latter between
  1 and 5 when the bucket has an address-less trade.  The address-less trades of a bucket
  collapse to a single wallet exactly when they all carry the same falsy value; the
  count is then one more than the number of distinct addresses present.
\<close>

theorem missing_address_trades:
  "walletActivity rows = walletActivity (filter (\<lambda>tx. truthy_address (trader_wallet_address tx)) rows)
   \<and> (walletActivity rows = Inr wallets \<longrightarrow>
        fst ` set wallets \<subseteq> {a. a \<noteq> [] \<and> Address a \<in> trader_wallet_address ` set rows})
   \<and> potentialWashTraders (activity_of_interval entry)
       = potentialWashTraders_of (filter (\<lambda>tx. truthy_address (trader_wallet_address tx)) (snd entry))
   \<and> (\<forall>a \<in> set (potentialWashTraders (activity_of_interval entry)).
         a \<noteq> [] \<and> Address a \<in> trader_wallet_address ` set (snd entry))
   \<and> uniqueWallets (activity_of_interval entry)
       = card {c \<in> trader_wallet_address ` set (snd entry). truthy_address c}
       + card {c \<in> trader_wallet_address ` set (snd entry). \<not> truthy_address c}
   \<and> ((\<exists>tx \<in> set (snd entry). \<not> truthy_address (trader_wallet_address tx)) \<longrightarrow>
        1 \<le> card {c \<in> trader_wallet_address ` set (snd entry). \<not> truthy_address c}
      \<and> card {c \<in> trader_wallet_address ` set (snd entry). \<not> truthy_address c} \<le> 5)
   \<and> ((\<exists>tx \<in> set (snd entry). \<not> truthy_address (trader_wallet_address tx))
        \<and> (\<forall>tx \<in> set (snd entry). \<forall>tx' \<in> set (snd entry).
              \<not> truthy_address (trader_wallet_address tx) \<and> \<not> truthy_address (trader_wallet_address tx')
              \<longrightarrow> trader_wallet_address tx = trader_wallet_address tx')
        \<longrightarrow> uniqueWallets (activity_of_interval entry)
            = Suc (card {c \<in> trader_wallet_address ` set (snd entry). truthy_address c}))"
proof (intro conjI ballI impI)
  show "walletActivity rows = walletActivity (filter (\<lambda>tx. truthy_address (trader_wallet_address tx)) rows)"
    by (rule walletActivity_ignores_missing)
next
  assume "walletActivity rows = Inr wallets"
  then show "fst ` set wallets \<subseteq> {a. a \<noteq> [] \<and> Address a \<in> trader_wallet_address ` set rows}"
    using walletActivity_keys [of rows wallets] by blast
next
  show "potentialWashTraders (activity_of_interval entry)
       = potentialWashTraders_of (filter (\<lambda>tx. truthy_address (trader_wallet_address tx)) (snd entry))"
    using walletActions_ignores_missing [of "snd entry"]
    by (simp add: activity_of_interval_def Let_def potentialWashTraders_of_def)
next
  fix a assume "a \<in> set (potentialWashTraders (activity_of_interval entry))"
  then have a: "a \<in> set (potentialWashTraders_of (snd entry))"
    by (simp add: activity_of_interval_def Let_def)
  then show "a \<noteq> []"
    by (simp add: set_potentialWashTraders)
  from a show "Address a \<in> trader_wallet_address ` set (snd entry)"
    by (auto simp: set_potentialWashTraders image_iff) metis
next
  show "uniqueWallets (activity_of_interval entry)
       = card {c \<in> trader_wallet_address ` set (snd entry). truthy_address c}
       + card {c \<in> trader_wallet_address ` set (snd entry). \<not> truthy_address c}"
    unfolding interval_fields(2) by (rule unique_wallets_split)
next
  assume "\<exists>tx \<in> set (snd entry). \<not> truthy_address (trader_wallet_address tx)"
  then show "1 \<le> card {c \<in> trader_wallet_address ` set (snd entry). \<not> truthy_address c}"
    and "card {c \<in> trader_wallet_address ` set (snd entry). \<not> truthy_address c} \<le> 5"
    by (rule falsy_count_bounds)+
next
  assume "(\<exists>tx \<in> set (snd entry). \<not> truthy_address (trader_wallet_address tx))
        \<and> (\<forall>tx \<in> set (snd entry). \<forall>tx' \<in> set (snd entry).
              \<not> truthy_address (trader_wallet_address tx) \<and> \<not> truthy_address (trader_wallet_address tx')
              \<longrightarrow> trader_wallet_address tx = trader_wallet_address tx')"
  then have "card {c \<in> trader_wallet_address ` set (snd entry). \<not> truthy_address c} = 1"
    using falsy_count_one [of "snd entry"] by blast
  then show "uniqueWallets (activity_of_interval entry)
            = Suc (card {c \<in> trader_wallet_address ` set (snd entry). truthy_address c})"
    unfolding interval_fields(2) unique_wallets_split [of "snd entry"] by simp
qed

lemma anonymous_rows_eval:
  "walletActivity (sortedData anonymous_rows) = Inr anonymous_wallets
   \<and> map trader_wallet_address (sortedData anonymous_rows)
       = [Address ''A'', AddrNull, AddrNull, AddrNull, Address ''A'']
   \<and> map potentialWashTraders (suspiciousActivityIntervals (sortedData anonymous_rows)) = [[''A'']]
   \<and> map uniqueWallets (suspiciousActivityIntervals (sortedData anonymous_rows)) = [2]
   \<and> map snd (detailedTimeIntervals (sortedData anonymous_rows)) = [sortedData anonymous_rows]"
  by code_simp

theorem missing_address_trades_witness:
  "walletActivity (sortedData anonymous_rows) = Inr anonymous_wallets
   \<and> map trader_wallet_address (sortedData anonymous_rows)
       = [Address ''A'', AddrNull, AddrNull, AddrNull, Address ''A'']
   \<and> map potentialWashTraders (suspiciousActivityIntervals (sortedData anonymous_rows)) = [[''A'']]
   \<and> map uniqueWallets (suspiciousActivityIntervals (sortedData anonymous_rows)) = [2]
   \<and> map snd (detailedTimeIntervals (sortedData anonymous_rows)) = [sortedData anonymous_rows]"
  using missing_address_trades
      [of "sortedData anonymous_rows" anonymous_wallets "(0, sortedData anonymous_rows)"]
    anonymous_rows_eval
  by simp

text \<open>
  The claim as stated lets all address-less trades of a bucket count as one wallet.  In
  this retained bucket wallet A buys and sells, one trade has the address \<open>null\<close> and
  one the address \<open>undefined\<close>: neither creates a profile or a wash trader, and the
  unique-wallet count is 3, the missing address counting twice.
\<close>

theorem missing_address_counterexample:
  "map trader_wallet_address (sortedData short_line_rows)
       = [Address ''A'', AddrNull, AddrUndefined, Address ''A'']
   \<and> map_sum id (map fst) (walletActivity (sortedData short_line_rows)) = Inr [''A'']
   \<and> map ai_suspiciousScore (suspiciousActivityIntervals (sortedData short_line_rows)) = [2]
   \<and> map potentialWashTraders (suspiciousActivityIntervals (sortedData short_line_rows)) = [[''A'']]
   \<and> map uniqueWallets (suspiciousActivityIntervals (sortedData short_line_rows)) = [3]"
  by code_simp

subsection \<open>Price series and price-change events\<close>

lemma price_interval_timestamp: "pi_timestamp (price_of_interval entry) = fst entry"
  by (simp add: price_of_interval_def Let_def)

lemma meanBy_Nil: "meanBy [] = None"
  by (simp add: meanBy_def)

lemma price_interval_prices:
  "avgBuyPrice (price_of_interval entry) =
     meanBy (map (\<lambda>tx. the (buy_price tx))
       (filter (\<lambda>tx. tx_type tx = TOKEN_BUY \<and> truthy (buy_price tx)) (snd entry)))"
  "avgSellPrice (price_of_interval entry) =
     meanBy (map (\<lambda>tx. the (sell_price tx))
       (filter (\<lambda>tx. tx_type tx = TOKEN_SELL \<and> truthy (sell_price tx)) (snd entry)))"
  "pi_price (price_of_interval entry) =
     (if truthy (avgBuyPrice (price_of_interval entry)) then avgBuyPrice (price_of_interval entry)
      else avgSellPrice (price_of_interval entry))"
proof -
  have *: "filter Q (filter P xs) = filter (\<lambda>x. P x \<and> Q x) xs" for P Q and xs :: "trade list"
    by (induction xs) auto
  have **: "filter P xs = [] \<Longrightarrow> filter (\<lambda>x. P x \<and> Q x) xs = []" for P Q and xs :: "trade list"
    by (induction xs) (auto split: if_splits)
  show "avgBuyPrice (price_of_interval entry) =
     meanBy (map (\<lambda>tx. the (buy_price tx))
       (filter (\<lambda>tx. tx_type tx = TOKEN_BUY \<and> truthy (buy_price tx)) (snd entry)))"
    by (simp add: price_of_interval_def Let_def * ** meanBy_Nil)
  show "avgSellPrice (price_of_interval entry) =
     meanBy (map (\<lambda>tx. the (sell_price tx))
       (filter (\<lambda>tx. tx_type tx = TOKEN_SELL \<and> truthy (sell_price tx)) (snd entry)))"
    by (simp add: price_of_interval_def Let_def * ** meanBy_Nil)
  show "pi_price (price_of_interval entry) =
     (if truthy (avgBuyPrice (price_of_interval entry)) then avgBuyPrice (price_of_interval entry)
      else avgSellPrice (price_of_interval entry))"
    by (simp add: price_of_interval_def Let_def or_else_def)
qed

lemma set_sortedPriceIntervals:
  "set (sortedPriceIntervals rows)
     = {p \<in> price_of_interval ` set (timeIntervals rows). truthy (pi_price p)}"
  by (auto simp: sortedPriceIntervals_def priceByInterval_def set_object_entries)

lemma sorted_sortedPriceIntervals: "sorted (map pi_timestamp (sortedPriceIntervals rows))"
  unfolding sortedPriceIntervals_def by (rule sorted_sort_key)

lemma distinct_sortedPriceIntervals: "distinct (map pi_timestamp (sortedPriceIntervals rows))"
proof -
  let ?es = "object_entries (timeIntervals rows)"
  have "distinct (map fst ?es)"
    unfolding timeIntervals_def
    by (intro distinct_keys_object_entries distinct_keys_groupBy)
  moreover have "map pi_timestamp (map price_of_interval ?es) = map fst ?es"
    by (simp add: price_interval_timestamp)
  ultimately have "distinct (map pi_timestamp (map price_of_interval ?es))"
    by (simp only:)
  then have "distinct (map pi_timestamp
      (filter (\<lambda>interval. truthy (pi_price interval)) (map price_of_interval ?es)))"
    by (rule distinct_map_filter)
  then show ?thesis
    unfolding sortedPriceIntervals_def priceByInterval_def by (simp add: distinct_map)
qed

lemma priceChanges_of_zip:
  "priceChanges_of ps = concat (map (\<lambda>ab. price_change_of (fst ab) (snd ab)) (zip ps (tl ps)))"
  by (induction ps rule: priceChanges_of.induct) simp_all

lemma price_change_of_elem:
  assumes "e \<in> set (price_change_of a b)"
  shows "startTimestamp e = pi_timestamp a" "endTimestamp e = pi_timestamp b"
    "startPrice e = the (pi_price a)" "endPrice e = the (pi_price b)"
    "percentChange e = ((endPrice e - startPrice e) / startPrice e) * 100"
    "\<bar>percentChange e\<bar> > 5" "isSignificant e \<longleftrightarrow> \<bar>percentChange e\<bar> > 10"
  using assms by (auto simp: price_change_of_def Let_def percent_change_def split: if_splits)

lemma price_change_of_emitted:
  assumes "truthy (pi_price a)" "truthy (pi_price b)"
  shows "price_change_of a b \<noteq> [] \<longleftrightarrow> \<bar>percent_change (the (pi_price a)) (the (pi_price b))\<bar> > 5"
  using assms by (simp add: price_change_of_def Let_def)


lemma coarse_bucket_contents:
  assumes "entry \<in> set (timeIntervals rows)"
  shows "snd entry = filter (\<lambda>t. fst entry \<le> trade_timestamp t \<and> trade_timestamp t < fst entry + 600) rows"
    and "snd entry \<noteq> []"
proof -
  show "snd entry = filter (\<lambda>t. fst entry \<le> trade_timestamp t \<and> trade_timestamp t < fst entry + 600) rows"
    using bucket_contents(1) [of 600 "fst entry" "snd entry" rows] assms
    by (simp add: timeIntervals_def)
  have "(fst entry, snd entry) \<in> set (groupBy (bucket_key 600) rows)"
    using assms by (simp add: timeIntervals_def)
  then show "snd entry \<noteq> []"
    unfolding groupBy_entry_iff by (auto simp: filter_empty_conv)
qed

lemma sortedPriceIntervals_truthy:
  "p \<in> set (sortedPriceIntervals rows) \<Longrightarrow> truthy (pi_price p)"
  by (simp add: set_sortedPriceIntervals)

lemma adjacent_in_set:
  assumes "ab \<in> set (zip ps (tl ps))"
  shows "fst ab \<in> set ps" "snd ab \<in> set ps"
proof -
  from assms show "fst ab \<in> set ps"
    by (metis prod.collapse set_zip_leftD)
  from assms have "snd ab \<in> set (tl ps)"
    by (metis prod.collapse set_zip_rightD)
  then show "snd ab \<in> set ps"
    by (metis list.sel(2) list.set_sel(2))
qed

lemma price_change_event_iff:
  assumes "ab \<in> set (zip (sortedPriceIntervals rows) (tl (sortedPriceIntervals rows)))"
  shows "(\<exists>e \<in> set (priceChanges rows).
            startTimestamp e = pi_timestamp (fst ab) \<and> endTimestamp e = pi_timestamp (snd ab))
         \<longleftrightarrow> \<bar>percent_change (the (pi_price (fst ab))) (the (pi_price (snd ab)))\<bar> > 5"
proof
  let ?ps = "sortedPriceIntervals rows"
  have inj: "inj_on pi_timestamp (set ?ps)"
    using distinct_sortedPriceIntervals [of rows] by (simp add: distinct_map)
  have t: "truthy (pi_price (fst ab))" "truthy (pi_price (snd ab))"
    using adjacent_in_set [OF assms] by (simp_all add: sortedPriceIntervals_truthy)
  {
    assume "\<exists>e \<in> set (priceChanges rows).
        startTimestamp e = pi_timestamp (fst ab) \<and> endTimestamp e = pi_timestamp (snd ab)"
    then obtain e cd where cd: "cd \<in> set (zip ?ps (tl ?ps))"
      and e: "e \<in> set (price_change_of (fst cd) (snd cd))"
      and ts: "startTimestamp e = pi_timestamp (fst ab)" "endTimestamp e = pi_timestamp (snd ab)"
      by (auto simp: priceChanges_def priceChanges_of_zip)
    have "pi_timestamp (fst cd) = pi_timestamp (fst ab)" "pi_timestamp (snd cd) = pi_timestamp (snd ab)"
      using price_change_of_elem(1,2) [OF e] ts by simp_all
    then have "fst cd = fst ab" "snd cd = snd ab"
      using inj adjacent_in_set [OF cd] adjacent_in_set [OF assms]
      by (auto dest: inj_onD)
    with e have "price_change_of (fst ab) (snd ab) \<noteq> []"
      by auto
    then show "\<bar>percent_change (the (pi_price (fst ab))) (the (pi_price (snd ab)))\<bar> > 5"
      using t by (simp add: price_change_of_emitted)
  }
  {
    assume "\<bar>percent_change (the (pi_price (fst ab))) (the (pi_price (snd ab)))\<bar> > 5"
    then have "price_change_of (fst ab) (snd ab) \<noteq> []"
      using t by (simp add: price_change_of_emitted)
    then obtain e where e: "e \<in> set (price_change_of (fst ab) (snd ab))"
      by (cases "price_change_of (fst ab) (snd ab)") auto
    then have "e \<in> set (priceChanges rows)"
      using assms by (auto simp: priceChanges_def priceChanges_of_zip)
    then show "\<exists>e \<in> set (priceChanges rows).
        startTimestamp e = pi_timestamp (fst ab) \<and> endTimestamp e = pi_timestamp (snd ab)"
      using price_change_of_elem(1,2) [OF e] by auto
  }
qed

lemma price_change_event_origin:
  assumes "e \<in> set (priceChanges rows)"
  shows "\<exists>ab \<in> set (zip (sortedPriceIntervals rows) (tl (sortedPriceIntervals rows))).
           startTimestamp e = pi_timestamp (fst ab) \<and> endTimestamp e = pi_timestamp (snd ab)
           \<and> startPrice e = the (pi_price (fst ab)) \<and> endPrice e = the (pi_price (snd ab))"
    and "percentChange e = ((endPrice e - startPrice e) / startPrice e) * 100"
    and "\<bar>percentChange e\<bar> > 5"
    and "isSignificant e \<longleftrightarrow> \<bar>percentChange e\<bar> > 10"
proof -
  from assms obtain ab where ab: "ab \<in> set (zip (sortedPriceIntervals rows) (tl (sortedPriceIntervals rows)))"
    and e: "e \<in> set (price_change_of (fst ab) (snd ab))"
    by (auto simp: priceChanges_def priceChanges_of_zip)
  from ab price_change_of_elem(1-4) [OF e]
  show "\<exists>ab \<in> set (zip (sortedPriceIntervals rows) (tl (sortedPriceIntervals rows))).
           startTimestamp e = pi_timestamp (fst ab) \<and> endTimestamp e = pi_timestamp (snd ab)
           \<and> startPrice e = the (pi_price (fst ab)) \<and> endPrice e = the (pi_price (snd ab))"
    by blast
  show "percentChange e = ((endPrice e - startPrice e) / startPrice e) * 100"
    and "\<bar>percentChange e\<bar> > 5"
    and "isSignificant e \<longleftrightarrow> \<bar>percentChange e\<bar> > 10"
    using price_change_of_elem(5-7) [OF e] by simp_all
qed


lemma price_rows_changes:
  "map (\<lambda>e. (startPrice e, endPrice e, percentChange e, isSignificant e))
       (priceChanges (sortedData price_rows))
     = [(10.2, 12, 300 / 17, True), (12, 6, - 50, True)]"
  by code_simp

text \<open>
  Claim C4.  The price series has one point per non-empty 600 second bucket with a
  derivable price, in chronological order: the timestamps of the series are sorted and
  distinct, and its points are those of the buckets whose price is usable.  The price of
  a bucket is the mean price of its buys (over the buys that have a price) if that is
  usable, else the mean price of its sells.  Walking the chronologically adjacent pairs
  of the series, an event is emitted for a pair if and only if the absolute percent
  change \<open>(curr - prev) / prev * 100\<close> is above 5; every event comes from such a pair,
  and its significance flag is set if and only if the absolute percent change is above
  10.  For the prices 10, 10.2, 12 and 6 the pair of 2 percent is not recorded and the
  pairs of 17.6 and -50 percent are recorded and significant.
\<close>

theorem price_series_and_changes:
  "sorted (map pi_timestamp (sortedPriceIntervals rows))
   \<and> distinct (map pi_timestamp (sortedPriceIntervals rows))
   \<and> set (sortedPriceIntervals rows)
       = {p \<in> price_of_interval ` set (timeIntervals rows). truthy (pi_price p)}
   \<and> (\<forall>entry \<in> set (timeIntervals rows).
        snd entry \<noteq> []
      \<and> snd entry = filter (\<lambda>t. fst entry \<le> trade_timestamp t \<and> trade_timestamp t < fst entry + 600) rows
      \<and> pi_timestamp (price_of_interval entry) = fst entry
      \<and> avgBuyPrice (price_of_interval entry) =
          meanBy (map (\<lambda>tx. the (buy_price tx))
            (filter (\<lambda>tx. tx_type tx = TOKEN_BUY \<and> truthy (buy_price tx)) (snd entry)))
      \<and> avgSellPrice (price_of_interval entry) =
          meanBy (map (\<lambda>tx. the (sell_price tx))
            (filter (\<lambda>tx. tx_type tx = TOKEN_SELL \<and> truthy (sell_price tx)) (snd entry)))
      \<and> pi_price (price_of_interval entry) =
          (if truthy (avgBuyPrice (price_of_interval entry))
           then avgBuyPrice (price_of_interval entry)
           else avgSellPrice (price_of_interval entry)))
   \<and> (\<forall>ab \<in> set (zip (sortedPriceIntervals rows) (tl (sortedPriceIntervals rows))).
        (\<exists>e \<in> set (priceChanges rows).
            startTimestamp e = pi_timestamp (fst ab) \<and> endTimestamp e = pi_timestamp (snd ab))
         \<longleftrightarrow> \<bar>percent_change (the (pi_price (fst ab))) (the (pi_price (snd ab)))\<bar> > 5)
   \<and> (\<forall>e \<in> set (priceChanges rows).
        (\<exists>ab \<in> set (zip (sortedPriceIntervals rows) (tl (sortedPriceIntervals rows))).
           startTimestamp e = pi_timestamp (fst ab) \<and> endTimestamp e = pi_timestamp (snd ab)
           \<and> startPrice e = the (pi_price (fst ab)) \<and> endPrice e = the (pi_price (snd ab)))
      \<and> percentChange e = ((endPrice e - startPrice e) / startPrice e) * 100
      \<and> \<bar>percentChange e\<bar> > 5
      \<and> (isSignificant e \<longleftrightarrow> \<bar>percentChange e\<bar> > 10))
   \<and> map (\<lambda>e. (startPrice e, endPrice e, percentChange e, isSignificant e))
         (priceChanges (sortedData price_rows))
       = [(10.2, 12, 300 / 17, True), (12, 6, - 50, True)]"
proof (intro conjI ballI)
  show "sorted (map pi_timestamp (sortedPriceIntervals rows))"
    by (rule sorted_sortedPriceIntervals)
  show "distinct (map pi_timestamp (sortedPriceIntervals rows))"
    by (rule distinct_sortedPriceIntervals)
  show "set (sortedPriceIntervals rows)
       = {p \<in> price_of_interval ` set (timeIntervals rows). truthy (pi_price p)}"
    by (rule set_sortedPriceIntervals)
  show "map (\<lambda>e. (startPrice e, endPrice e, percentChange e, isSignificant e))
         (priceChanges (sortedData price_rows))
       = [(10.2, 12, 300 / 17, True), (12, 6, - 50, True)]"
    by (rule price_rows_changes)
next
  fix entry assume entry: "entry \<in> set (timeIntervals rows)"
  show "snd entry \<noteq> []"
    using entry by (rule coarse_bucket_contents(2))
  show "snd entry = filter (\<lambda>t. fst entry \<le> trade_timestamp t \<and> trade_timestamp t < fst entry + 600) rows"
    using entry by (rule coarse_bucket_contents(1))
  show "pi_timestamp (price_of_interval entry) = fst entry"
    by (rule price_interval_timestamp)
  show "avgBuyPrice (price_of_interval entry) =
          meanBy (map (\<lambda>tx. the (buy_price tx))
            (filter (\<lambda>tx. tx_type tx = TOKEN_BUY \<and> truthy (buy_price tx)) (snd entry)))"
    by (rule price_interval_prices(1))
  show "avgSellPrice (price_of_interval entry) =
          meanBy (map (\<lambda>tx. the (sell_price tx))
            (filter (\<lambda>tx. tx_type tx = TOKEN_SELL \<and> truthy (sell_price tx)) (snd entry)))"
    by (rule price_interval_prices(2))
  show "pi_price (price_of_interval entry) =
          (if truthy (avgBuyPrice (price_of_interval entry))
           then avgBuyPrice (price_of_interval entry)
           else avgSellPrice (price_of_interval entry))"
    by (rule price_interval_prices(3))
next
  fix ab assume "ab \<in> set (zip (sortedPriceIntervals rows) (tl (sortedPriceIntervals rows)))"
  then show "(\<exists>e \<in> set (priceChanges rows).
            startTimestamp e = pi_timestamp (fst ab) \<and> endTimestamp e = pi_timestamp (snd ab))
         \<longleftrightarrow> \<bar>percent_change (the (pi_price (fst ab))) (the (pi_price (snd ab)))\<bar> > 5"
    by (rule price_change_event_iff)
next
  fix e assume e: "e \<in> set (priceChanges rows)"
  show "\<exists>ab \<in> set (zip (sortedPriceIntervals rows) (tl (sortedPriceIntervals rows))).
           startTimestamp e = pi_timestamp (fst ab) \<and> endTimestamp e = pi_timestamp (snd ab)
           \<and> startPrice e = the (pi_price (fst ab)) \<and> endPrice e = the (pi_price (snd ab))"
    using e by (rule price_change_event_origin(1))
  show "percentChange e = ((endPrice e - startPrice e) / startPrice e) * 100"
    using e by (rule price_change_event_origin(2))
  show "\<bar>percentChange e\<bar> > 5"
    using e by (rule price_change_event_origin(3))
  show "isSignificant e \<longleftrightarrow> \<bar>percentChange e\<bar> > 10"
    using e by (rule price_change_event_origin(4))
qed

lemma mixed_price_rows_eval:
  "map (\<lambda>p. (pi_timestamp p, avgBuyPrice p, avgSellPrice p, pi_price p))
       (sortedPriceIntervals (sortedData mixed_price_rows))
     = [(600, Some 15, Some 99, Some 15), (1200, None, Some 32, Some 32),
        (2400, Some 33, None, Some 33)]
   \<and> map fst (timeIntervals (sortedData mixed_price_rows)) = [600, 1200, 1800, 2400]
   \<and> map (\<lambda>e. (startTimestamp e, endTimestamp e, percentChange e, isSignificant e))
       (priceChanges (sortedData mixed_price_rows))
     = [(600, 1200, 340 / 3, True)]"
  by code_simp

theorem price_series_and_changes_witness:
  "map (\<lambda>p. (pi_timestamp p, avgBuyPrice p, avgSellPrice p, pi_price p))
       (sortedPriceIntervals (sortedData mixed_price_rows))
     = [(600, Some 15, Some 99, Some 15), (1200, None, Some 32, Some 32),
        (2400, Some 33, None, Some 33)]
   \<and> map fst (timeIntervals (sortedData mixed_price_rows)) = [600, 1200, 1800, 2400]
   \<and> map (\<lambda>e. (startTimestamp e, endTimestamp e, percentChange e, isSignificant e))
       (priceChanges (sortedData mixed_price_rows))
     = [(600, 1200, 340 / 3, True)]"
  using price_series_and_changes [of "sortedData mixed_price_rows"] mixed_price_rows_eval
  by simp

subsection \<open>When the analysis completes\<close>

text \<open>
  The analysis fails exactly on the inputs that leave no valid record or that hold a buy
  or a sell of a wallet named like an inherited member; on every other input it returns
  its outputs.
\<close>

lemma sortedData_empty_iff: "sortedData data = [] \<longleftrightarrow> processedData data = []"
  by (metis sortedData_def length_sort length_0_conv)

lemma analysis_returns:
  assumes "processedData data \<noteq> []" "\<forall>row \<in> set (sortedData data). \<not> throwing_row row"
  shows "\<exists>r. analysis data = Inr r \<and> out_sortedData r = sortedData data"
proof -
  have ne: "sortedData data \<noteq> []"
    using assms(1) by (simp add: sortedData_empty_iff)
  then obtain ps where "periods (sortedData data) = Inr ps"
    using periods_end_by_latest [of "sortedData data"] by blast
  moreover obtain wallets where "walletActivity (sortedData data) = Inr wallets"
    using assms(2) walletActivity_succeeds_iff [of "sortedData data"] by blast
  ultimately show ?thesis
    using ne by (simp add: analysis_def Let_def)
qed

lemma analysis_fails_iff:
  "analysis data = Inl TypeError \<longleftrightarrow>
     processedData data = [] \<or> (\<exists>row \<in> set (sortedData data). throwing_row row)"
proof (cases "processedData data = []")
  case True
  then show ?thesis
    by (simp add: analysis_def sortedData_empty_iff)
next
  case ne: False
  show ?thesis
  proof (cases "\<exists>row \<in> set (sortedData data). throwing_row row")
    case True
    then have "\<not> (\<exists>wallets. walletActivity (sortedData data) = Inr wallets)"
      by (simp add: walletActivity_succeeds_iff)
    then obtain e where "walletActivity (sortedData data) = Inl e"
      by (cases "walletActivity (sortedData data)") auto
    then have "walletActivity (sortedData data) = Inl TypeError"
      by (cases e) simp
    with ne True show ?thesis
      by (simp add: analysis_def Let_def sortedData_empty_iff)
  next
    case False
    then obtain r where "analysis data = Inr r"
      using analysis_returns [OF ne] by blast
    with ne False show ?thesis by simp
  qed
qed

end
